theory Spec2Isabelle
  imports Main "HOL-Library.Word"
begin

section \<open>Outbound webhook delivery engine\<close>

text \<open>
  A shallow embedding of the webhook subsystem of the backend:
  \<^item> the subscription registry of \<^verbatim>\<open>src/core/webhook/webhook.service.ts\<close>
    (\<^verbatim>\<open>createWebhook\<close>, \<^verbatim>\<open>getWebhook\<close>, \<^verbatim>\<open>updateWebhook\<close>, \<^verbatim>\<open>deleteWebhook\<close>,
    \<^verbatim>\<open>getWebhookDeliveries\<close>, \<^verbatim>\<open>triggerWebhooks\<close>);
  \<^item> the queue configuration of \<^verbatim>\<open>src/infra/queue/queues.ts\<close>
    (\<^verbatim>\<open>webhookQueue\<close>, \<^verbatim>\<open>addWebhookJob\<close>);
  \<^item> the processor of \<^verbatim>\<open>startWebhookWorker\<close> (the workers module);
  \<^item> the update schema of the webhook schema module and the PATCH route handler.

  The relational store is explicit state: one list of rows per table. An \<^verbatim>\<open>async\<close>
  function that throws is a function into a sum type, \<open>Inl\<close> carrying what is thrown.
  Libraries outside the repository (the WHATWG URL parser, Node's \<^verbatim>\<open>crypto\<close>,
  \<^verbatim>\<open>JSON.stringify\<close>, \<^verbatim>\<open>fetch\<close>) are parameters of the functions that call them, and so
  is the store's refusal of a delivery row.
  Record fields carry a prefix (\<open>s_\<close>, \<open>d_\<close>, \<open>j_\<close>, \<open>p_\<close>, \<open>u_\<close>, \<open>c_\<close>) because
  several tables share column names.
\<close>

subsection \<open>Decimal rendering of numbers\<close>

text \<open>
  Template literals and \<^verbatim>\<open>Number.prototype.toString\<close> render an integer below \<open>10^21\<close>
  in decimal; millisecond timestamps and HTTP status codes are far below that bound.
\<close>

definition digit_char :: "nat \<Rightarrow> char" where
  "digit_char d = ''0123456789'' ! (d mod 10)"

function show_nat :: "nat \<Rightarrow> string" where
  "show_nat n = (if n < 10 then [digit_char n] else show_nat (n div 10) @ [digit_char n])"
  by pat_completeness auto
termination
  by (relation "measure (\<lambda>n. n)") auto

declare show_nat.simps [simp del]

definition show_int :: "int \<Rightarrow> string" where
  "show_int i = (if i < 0 then CHR ''-'' # show_nat (nat (- i)) else show_nat (nat i))"

text \<open>Reading a decimal numeral back, to state that the rendering loses nothing.\<close>

definition digit_value :: "char \<Rightarrow> nat" where
  "digit_value c = of_char c - 48"

definition read_nat :: "string \<Rightarrow> nat" where
  "read_nat cs = foldl (\<lambda>acc c. 10 * acc + digit_value c) 0 cs"

subsection \<open>Errors\<close>

text \<open>
  The \<^verbatim>\<open>AppError\<close> subclasses of the shared errors module that the webhook code throws,
  with their messages, and the errors of the persistence client.
\<close>

datatype app_error =
    NotFoundError string
  | ValidationError string
  | ConflictError string
  | ForbiddenError string
  | PrismaError string

fun statusCode_of :: "app_error \<Rightarrow> nat" where
  "statusCode_of (NotFoundError _) = 404"
| "statusCode_of (ValidationError _) = 422"
| "statusCode_of (ConflictError _) = 409"
| "statusCode_of (ForbiddenError _) = 403"
| "statusCode_of (PrismaError _) = 500"

subsection \<open>Tables\<close>

text \<open>
  The columns of \<^verbatim>\<open>webhook_subscriptions\<close>, \<^verbatim>\<open>webhook_deliveries\<close> and
  \<^verbatim>\<open>tenant_plans\<close> as the migration creates them. Timestamps are milliseconds.
\<close>

record WebhookSubscription =
  s_id :: string
  s_tenantId :: string
  s_url :: string
  s_events :: "string list"
  s_secret :: string
  s_isActive :: bool
  s_description :: "string option"
  s_createdBy :: string
  s_createdAt :: nat
  s_updatedAt :: nat

record 'p WebhookDelivery =
  d_id :: string
  d_webhookId :: string
  d_event :: string
  d_payload :: 'p
  d_url :: string
  d_statusCode :: "nat option"
  d_responseBody :: "string option"
  d_error :: "string option"
  d_attempts :: nat
  d_deliveredAt :: "nat option"
  d_createdAt :: nat

record TenantPlan =
  p_tenantId :: string
  p_maxWebhooks :: int

text \<open>The payload of a job of the \<^verbatim>\<open>webhooks\<close> queue (\<^verbatim>\<open>WebhookJobData\<close>).\<close>

record 'p WebhookJobData =
  j_webhookId :: string
  j_event :: string
  j_url :: string
  j_secret :: string
  j_payload :: 'p

text \<open>A job as \<^verbatim>\<open>Queue.add(name, data)\<close> stores it.\<close>

record 'p queued_job =
  q_name :: string
  q_data :: "'p WebhookJobData"

text \<open>
  The stores the subsystem reads and writes: the three tables, the \<^verbatim>\<open>webhooks\<close> queue
  and the counter behind the generated primary keys.
\<close>

record 'p world =
  subscriptions :: "WebhookSubscription list"
  deliveries :: "'p WebhookDelivery list"
  tenantPlans :: "TenantPlan list"
  webhookJobs :: "'p queued_job list"
  idCounter :: nat

definition genId :: "nat \<Rightarrow> string" where
  "genId n = CHR ''c'' # show_nat n"

subsection \<open>The delivery worker\<close>

text \<open>
  What a rejected promise or a \<^verbatim>\<open>throw\<close> carries: an \<^verbatim>\<open>Error\<close> object with its
  message, or some other value.
\<close>

datatype thrown = Error string | NonError

record http_request =
  r_method :: string
  r_url :: string
  r_headers :: "(string \<times> string) list"
  r_body :: string

text \<open>
  A response: its status and what \<^verbatim>\<open>response.text()\<close> settles to. \<^verbatim>\<open>response.ok\<close> is
  true for a status from 200 to 299.
\<close>

record http_response =
  status :: nat
  text_result :: "thrown + string"

definition response_ok :: "http_response \<Rightarrow> bool" where
  "response_ok r = (200 \<le> status r \<and> status r \<le> 299)"

text \<open>
  The request of one attempt: lines 107 to 126 of the worker. \<open>hmacHex key msg\<close> stands for
  \<^verbatim>\<open>crypto.createHmac('sha256', key).update(msg).digest('hex')\<close> and \<open>stringify\<close> for
  \<^verbatim>\<open>JSON.stringify\<close>.
\<close>

definition signaturePayload :: "('p \<Rightarrow> string) \<Rightarrow> nat \<Rightarrow> 'p \<Rightarrow> string" where
  "signaturePayload stringify timestamp payload =
     show_nat timestamp @ ''.'' @ stringify payload"

definition webhookRequest ::
  "(string \<Rightarrow> string \<Rightarrow> string) \<Rightarrow> ('p \<Rightarrow> string) \<Rightarrow> nat \<Rightarrow> 'p WebhookJobData \<Rightarrow> http_request" where
  "webhookRequest hmacHex stringify timestamp job =
     (let signature = hmacHex (j_secret job) (signaturePayload stringify timestamp (j_payload job))
      in \<lparr> r_method = ''POST'',
           r_url = j_url job,
           r_headers =
             [(''Content-Type'', ''application/json''),
              (''X-Webhook-Event'', j_event job),
              (''X-Webhook-Signature'', signature),
              (''X-Webhook-Timestamp'', show_nat timestamp),
              (''User-Agent'', ''Enterprise-SaaS-Webhook/1.0'')],
           r_body = stringify (j_payload job) \<rparr>)"

text \<open>
  \<^verbatim>\<open>prisma.webhookDelivery.create\<close>: the row gets a generated key and the default
  \<^verbatim>\<open>createdAt\<close>; the table has no foreign key and no unique column besides the key. The
  store may refuse a row (a text column holding a NUL character, say), and then the call
  throws: \<open>dbRefuses row\<close> is what it throws for that row, \<open>None\<close> when the row is accepted.
\<close>

definition delivery_create ::
  "('p WebhookDelivery \<Rightarrow> thrown option) \<Rightarrow> nat \<Rightarrow> 'p WebhookDelivery \<Rightarrow> 'p world \<Rightarrow>
   thrown + 'p world" where
  "delivery_create dbRefuses now data w =
     (let row = data\<lparr> d_id := genId (idCounter w), d_createdAt := now \<rparr> in
      case dbRefuses row of
        Some err \<Rightarrow> Inl err
      | None \<Rightarrow> Inr (w\<lparr> deliveries := deliveries w @ [row],
                         idCounter := Suc (idCounter w) \<rparr>))"

text \<open>The message of a thrown value, as the \<^verbatim>\<open>catch\<close> block reads it.\<close>

fun errorMessage :: "thrown \<Rightarrow> string" where
  "errorMessage (Error m) = m"
| "errorMessage NonError = ''Unknown error''"

text \<open>
  The \<^verbatim>\<open>catch\<close> block (lines 153 to 172): it writes a row without status, body and
  delivery time and throws the error again. When the store refuses that row, what the
  \<^verbatim>\<open>create\<close> throws leaves the processor instead.
\<close>

definition catch_block ::
  "('p WebhookDelivery \<Rightarrow> thrown option) \<Rightarrow> nat \<Rightarrow> 'p WebhookJobData \<Rightarrow> nat \<Rightarrow> thrown \<Rightarrow>
   'p world \<Rightarrow> (thrown + nat) \<times> 'p world" where
  "catch_block dbRefuses logTime job attemptNumber err w =
     (case delivery_create dbRefuses logTime
             \<lparr> d_id = [], d_webhookId = j_webhookId job, d_event = j_event job,
               d_payload = j_payload job, d_url = j_url job, d_statusCode = None,
               d_responseBody = None, d_error = Some (errorMessage err),
               d_attempts = attemptNumber, d_deliveredAt = None, d_createdAt = logTime \<rparr> w of
        Inl err2 \<Rightarrow> (Inl err2, w)
      | Inr w' \<Rightarrow> (Inl err, w'))"

text \<open>
  The processor of the \<^verbatim>\<open>webhooks\<close> worker (lines 101 to 173). \<open>attemptsMade\<close> is
  \<^verbatim>\<open>job.attemptsMade\<close>, \<open>timestamp\<close> what \<^verbatim>\<open>Date.now()\<close> returns, \<open>logTime\<close> the clock
  when a row is written. The result is \<open>Inr statusCode\<close> for \<^verbatim>\<open>{ success: true, statusCode }\<close>
  and \<open>Inl\<close> what the processor throws. The \<^verbatim>\<open>create\<close> of line 132 and the \<^verbatim>\<open>throw\<close> of
  line 147 stand inside the \<^verbatim>\<open>try\<close>, so the \<^verbatim>\<open>catch\<close> block runs for a refused row and for
  a status outside 200 to 299 as it does for a rejected \<^verbatim>\<open>fetch\<close>.
\<close>

definition webhookProcessor ::
  "('p WebhookDelivery \<Rightarrow> thrown option) \<Rightarrow> (string \<Rightarrow> string \<Rightarrow> string) \<Rightarrow> ('p \<Rightarrow> string) \<Rightarrow>
   (http_request \<Rightarrow> thrown + http_response) \<Rightarrow>
   nat \<Rightarrow> nat \<Rightarrow> 'p WebhookJobData \<Rightarrow> nat \<Rightarrow> 'p world \<Rightarrow> (thrown + nat) \<times> 'p world" where
  "webhookProcessor dbRefuses hmacHex stringify fetch timestamp logTime job attemptsMade w =
     (let attemptNumber = attemptsMade + 1 in
      case fetch (webhookRequest hmacHex stringify timestamp job) of
        Inl err \<Rightarrow> catch_block dbRefuses logTime job attemptNumber err w
      | Inr response \<Rightarrow>
          (let statusCode = status response;
               responseBody = (case text_result response of Inl _ \<Rightarrow> [] | Inr t \<Rightarrow> t)
           in case delivery_create dbRefuses logTime
                     \<lparr> d_id = [], d_webhookId = j_webhookId job, d_event = j_event job,
                       d_payload = j_payload job, d_url = j_url job,
                       d_statusCode = Some statusCode,
                       d_responseBody = Some (take 1000 responseBody),
                       d_error = (if response_ok response then None
                                  else Some (''HTTP '' @ show_nat statusCode)),
                       d_attempts = attemptNumber,
                       d_deliveredAt = (if response_ok response then Some logTime else None),
                       d_createdAt = logTime \<rparr> w of
                Inl err \<Rightarrow> catch_block dbRefuses logTime job attemptNumber err w
              | Inr w1 \<Rightarrow>
                  if \<not> response_ok response
                  then catch_block dbRefuses logTime job attemptNumber
                         (Error (''Webhook delivery failed with status '' @
                                 show_nat statusCode)) w1
                  else (Inr statusCode, w1)))"

subsection \<open>The queue and its retry policy\<close>

datatype backoff = Fixed nat | Exponential nat

record job_options =
  removeOnComplete :: nat
  removeOnFail :: nat
  attempts :: nat
  backoff :: backoff

text \<open>\<^verbatim>\<open>defaultJobOptions\<close> of \<^verbatim>\<open>webhookQueue\<close> (lines 50 to 61 of the queue module).\<close>

definition webhookQueue_defaultJobOptions :: job_options where
  "webhookQueue_defaultJobOptions =
     \<lparr> removeOnComplete = 100, removeOnFail = 500, attempts = 5, backoff = Exponential 5000 \<rparr>"

definition addWebhookJob :: "'p WebhookJobData \<Rightarrow> 'p world \<Rightarrow> 'p world" where
  "addWebhookJob data w =
     w\<lparr> webhookJobs := webhookJobs w @ [\<lparr> q_name = ''webhook-'' @ j_event data, q_data = data \<rparr>] \<rparr>"

text \<open>
  Modelled from the spec: the backoff schedule of the queue library (BullMQ), which is not
  under the repository's sources. The spec's section 4.3 gives it: a base delay and
  multiplier 2. \<open>backoff_delay b made\<close> is the wait after the \<open>made\<close>-th failed attempt.
\<close>

fun backoff_delay :: "backoff \<Rightarrow> nat \<Rightarrow> nat" where
  "backoff_delay (Fixed d) made = d"
| "backoff_delay (Exponential d) made = 2 ^ (made - 1) * d"

datatype job_state = SUCCEEDED | EXHAUSTED

record 'w job_run =
  run_state :: job_state
  run_attempts :: "nat list"
  run_delays :: "nat list"
  run_world :: 'w

text \<open>
  Modelled from the spec: the retry loop of the queue library (BullMQ), which is not under
  the repository's sources. By the spec's section 4.3 a failed attempt is followed, after
  the backoff delay, by another one until the maximum attempt count is reached; after the
  last attempt fails the job is exhausted and not retried. The processor is called with the
  number of attempts already made, as the library passes \<^verbatim>\<open>job.attemptsMade\<close>. The result
  records the ordinals of the attempts made and the delays between them.
\<close>

function runJob ::
  "job_options \<Rightarrow> (nat \<Rightarrow> 'w \<Rightarrow> ('e + 'a) \<times> 'w) \<Rightarrow> nat \<Rightarrow> 'w \<Rightarrow> 'w job_run" where
  "runJob opts processor attemptsMade w =
     (let outcome = processor attemptsMade w in
      if isl (fst outcome) \<and> attemptsMade + 1 < attempts opts
      then (let r = runJob opts processor (attemptsMade + 1) (snd outcome)
            in r\<lparr> run_attempts := (attemptsMade + 1) # run_attempts r,
                  run_delays := backoff_delay (backoff opts) (attemptsMade + 1) # run_delays r \<rparr>)
      else \<lparr> run_state = (if isl (fst outcome) then EXHAUSTED else SUCCEEDED),
             run_attempts = [attemptsMade + 1], run_delays = [], run_world = snd outcome \<rparr>)"
  by pat_completeness auto
termination
  by (relation "measure (\<lambda>(opts, processor, attemptsMade, w). attempts opts - attemptsMade)") auto

declare runJob.simps [simp del]

text \<open>
  One webhook job under the queue's options: \<open>fetchAt made\<close> is how the subscriber's
  endpoint answers the attempt after \<open>made\<close> earlier ones, \<open>clock made\<close> the two clock
  readings of that attempt.
\<close>

definition runWebhookJob ::
  "('p WebhookDelivery \<Rightarrow> thrown option) \<Rightarrow> (string \<Rightarrow> string \<Rightarrow> string) \<Rightarrow> ('p \<Rightarrow> string) \<Rightarrow>
   (nat \<Rightarrow> http_request \<Rightarrow> thrown + http_response) \<Rightarrow>
   (nat \<Rightarrow> nat \<times> nat) \<Rightarrow> 'p WebhookJobData \<Rightarrow> 'p world \<Rightarrow> 'p world job_run" where
  "runWebhookJob dbRefuses hmacHex stringify fetchAt clock job w =
     runJob webhookQueue_defaultJobOptions
       (\<lambda>made. webhookProcessor dbRefuses hmacHex stringify (fetchAt made)
                 (fst (clock made)) (snd (clock made)) job made)
       0 w"

subsection \<open>The subscription registry\<close>

record CreateWebhookInput =
  c_url :: string
  c_events :: "string list"
  c_description :: "string option"

text \<open>A field of \<^verbatim>\<open>UpdateWebhookInput\<close> that the caller leaves out is \<open>None\<close>.\<close>

record UpdateWebhookInput =
  u_url :: "string option"
  u_events :: "string list option"
  u_description :: "string option"
  u_isActive :: "bool option"

text \<open>
  \<^verbatim>\<open>crypto.randomBytes(n)\<close> reads \<open>n\<close> bytes of the generator's output, here the stream
  \<open>entropy\<close>; \<^verbatim>\<open>toString('hex')\<close> writes each byte as two lower-case hexadecimal digits.
\<close>

definition randomBytes :: "(nat \<Rightarrow> 8 word) \<Rightarrow> nat \<Rightarrow> 8 word list" where
  "randomBytes entropy n = map entropy [0..<n]"

definition hex_digit :: "nat \<Rightarrow> char" where
  "hex_digit d = ''0123456789abcdef'' ! (d mod 16)"

definition byte_hex :: "8 word \<Rightarrow> string" where
  "byte_hex b = [hex_digit (unat b div 16), hex_digit (unat b mod 16)]"

definition toHex :: "8 word list \<Rightarrow> string" where
  "toHex bs = concat (map byte_hex bs)"

text \<open>
  \<^verbatim>\<open>prisma.webhookSubscription.create\<close>: the key is generated, \<^verbatim>\<open>isActive\<close> defaults to
  true, both timestamps are the time of the write. The key is the table's primary key, so
  a row with a key already present is refused.
\<close>

definition subscription_create ::
  "nat \<Rightarrow> string \<Rightarrow> string \<Rightarrow> CreateWebhookInput \<Rightarrow> string \<Rightarrow> 'p world \<Rightarrow>
   (app_error + WebhookSubscription) \<times> 'p world" where
  "subscription_create now tenantId userId input secret w =
     (let row = \<lparr> s_id = genId (idCounter w), s_tenantId = tenantId, s_url = c_url input,
                   s_events = c_events input, s_secret = secret, s_isActive = True,
                   s_description = c_description input, s_createdBy = userId,
                   s_createdAt = now, s_updatedAt = now \<rparr>
      in if s_id row \<in> set (map s_id (subscriptions w))
         then (Inl (PrismaError ''P2002''), w)
         else (Inr row, w\<lparr> subscriptions := subscriptions w @ [row],
                            idCounter := Suc (idCounter w) \<rparr>))"

text \<open>
  \<^verbatim>\<open>createWebhook\<close> (lines 42 to 89). \<open>urlParses u\<close> says that \<^verbatim>\<open>new URL(u)\<close> does not
  throw.
\<close>

definition createWebhook ::
  "(string \<Rightarrow> bool) \<Rightarrow> (nat \<Rightarrow> 8 word) \<Rightarrow> nat \<Rightarrow> string \<Rightarrow> string \<Rightarrow> CreateWebhookInput \<Rightarrow> 'p world \<Rightarrow>
   (app_error + WebhookSubscription) \<times> 'p world" where
  "createWebhook urlParses entropy now tenantId userId input w =
     (if \<not> urlParses (c_url input) then (Inl (ValidationError ''Invalid webhook URL''), w)
      else if length (c_events input) = 0
      then (Inl (ValidationError ''At least one event must be specified''), w)
      else
        let plan = find (\<lambda>p. p_tenantId p = tenantId) (tenantPlans w);
            existingCount =
              length (filter (\<lambda>s. s_tenantId s = tenantId \<and> s_isActive s) (subscriptions w))
        in case plan of
             Some pl \<Rightarrow>
               if int existingCount \<ge> p_maxWebhooks pl
               then (Inl (ConflictError (''Webhook limit reached. Your plan allows '' @
                            show_int (p_maxWebhooks pl) @ '' webhooks.'')), w)
               else subscription_create now tenantId userId input
                      (toHex (randomBytes entropy 32)) w
           | None \<Rightarrow>
               subscription_create now tenantId userId input
                 (toHex (randomBytes entropy 32)) w)"

text \<open>\<^verbatim>\<open>getWebhook\<close> (lines 94 to 104): \<^verbatim>\<open>findFirst\<close> on the key and the tenant.\<close>

definition getWebhook :: "string \<Rightarrow> string \<Rightarrow> 'p world \<Rightarrow> app_error + WebhookSubscription" where
  "getWebhook webhookId tenantId w =
     (case find (\<lambda>s. s_id s = webhookId \<and> s_tenantId s = tenantId) (subscriptions w) of
        None \<Rightarrow> Inl (NotFoundError ''Webhook not found'')
      | Some webhook \<Rightarrow> Inr webhook)"

text \<open>
  \<^verbatim>\<open>prisma.webhookSubscription.update({ where: { id }, data: input })\<close>: a field that is
  undefined in \<open>data\<close> is left as it is, and \<^verbatim>\<open>updatedAt\<close> is set to the time of the write.
\<close>

definition apply_update :: "UpdateWebhookInput \<Rightarrow> nat \<Rightarrow> WebhookSubscription \<Rightarrow> WebhookSubscription" where
  "apply_update input now s =
     s\<lparr> s_url := (case u_url input of None \<Rightarrow> s_url s | Some u \<Rightarrow> u),
        s_events := (case u_events input of None \<Rightarrow> s_events s | Some es \<Rightarrow> es),
        s_description := (case u_description input of None \<Rightarrow> s_description s | Some d \<Rightarrow> Some d),
        s_isActive := (case u_isActive input of None \<Rightarrow> s_isActive s | Some a \<Rightarrow> a),
        s_updatedAt := now \<rparr>"

definition subscription_update ::
  "string \<Rightarrow> UpdateWebhookInput \<Rightarrow> nat \<Rightarrow> 'p world \<Rightarrow> (app_error + WebhookSubscription) \<times> 'p world" where
  "subscription_update key input now w =
     (case find (\<lambda>s. s_id s = key) (subscriptions w) of
        None \<Rightarrow> (Inl (PrismaError ''P2025''), w)
      | Some s \<Rightarrow>
          (Inr (apply_update input now s),
           w\<lparr> subscriptions :=
                map (\<lambda>r. if s_id r = key then apply_update input now r else r) (subscriptions w) \<rparr>))"

text \<open>
  \<^verbatim>\<open>updateWebhook\<close> (lines 109 to 132). \<^verbatim>\<open>if (input.url)\<close> is a truthiness test: it holds
  for a string that is present and not empty.
\<close>

definition updateWebhook ::
  "(string \<Rightarrow> bool) \<Rightarrow> nat \<Rightarrow> string \<Rightarrow> string \<Rightarrow> UpdateWebhookInput \<Rightarrow> 'p world \<Rightarrow>
   (app_error + WebhookSubscription) \<times> 'p world" where
  "updateWebhook urlParses now webhookId tenantId input w =
     (case getWebhook webhookId tenantId w of
        Inl e \<Rightarrow> (Inl e, w)
      | Inr webhook \<Rightarrow>
          if (case u_url input of None \<Rightarrow> False | Some u \<Rightarrow> u \<noteq> [] \<and> \<not> urlParses u)
          then (Inl (ValidationError ''Invalid webhook URL''), w)
          else if (case u_events input of None \<Rightarrow> False | Some es \<Rightarrow> length es = 0)
          then (Inl (ValidationError ''At least one event must be specified''), w)
          else subscription_update (s_id webhook) input now w)"

text \<open>
  \<^verbatim>\<open>updateWebhookSchema\<close> and the handler of \<^verbatim>\<open>PATCH /webhooks/:id\<close>: the body is parsed
  with the schema first, and only a body that passes reaches \<^verbatim>\<open>updateWebhook\<close>. \<open>zodUrl\<close>
  stands for the url format check of the schema library.
\<close>

definition updateWebhookSchema_safeParse :: "(string \<Rightarrow> bool) \<Rightarrow> UpdateWebhookInput \<Rightarrow> bool" where
  "updateWebhookSchema_safeParse zodUrl body =
     ((case u_url body of None \<Rightarrow> True | Some u \<Rightarrow> zodUrl u) \<and>
      (case u_events body of None \<Rightarrow> True | Some es \<Rightarrow> length es \<ge> 1))"

definition patchWebhookHandler ::
  "(string \<Rightarrow> bool) \<Rightarrow> (string \<Rightarrow> bool) \<Rightarrow> nat \<Rightarrow> string \<Rightarrow> string \<Rightarrow> UpdateWebhookInput \<Rightarrow> 'p world \<Rightarrow>
   (app_error + WebhookSubscription) \<times> 'p world" where
  "patchWebhookHandler zodUrl urlParses now webhookId tenantId body w =
     (if \<not> updateWebhookSchema_safeParse zodUrl body
      then (Inl (ValidationError ''Validation failed''), w)
      else updateWebhook urlParses now webhookId tenantId body w)"

text \<open>\<^verbatim>\<open>deleteWebhook\<close> (lines 137 to 140).\<close>

definition subscription_delete :: "string \<Rightarrow> 'p world \<Rightarrow> (app_error + unit) \<times> 'p world" where
  "subscription_delete key w =
     (case find (\<lambda>s. s_id s = key) (subscriptions w) of
        None \<Rightarrow> (Inl (PrismaError ''P2025''), w)
      | Some _ \<Rightarrow> (Inr (), w\<lparr> subscriptions := filter (\<lambda>r. s_id r \<noteq> key) (subscriptions w) \<rparr>))"

definition deleteWebhook :: "string \<Rightarrow> string \<Rightarrow> 'p world \<Rightarrow> (app_error + unit) \<times> 'p world" where
  "deleteWebhook webhookId tenantId w =
     (case getWebhook webhookId tenantId w of
        Inl e \<Rightarrow> (Inl e, w)
      | Inr webhook \<Rightarrow> subscription_delete (s_id webhook) w)"

text \<open>
  \<^verbatim>\<open>findMany\<close> with \<^verbatim>\<open>skip\<close> and \<^verbatim>\<open>take\<close> on rows already filtered and ordered: the client
  refuses a negative \<^verbatim>\<open>skip\<close>, and a negative \<^verbatim>\<open>take\<close> counts from the end. The routes
  only pass a page and a limit of at least 1.
\<close>

definition findMany_page :: "int \<Rightarrow> int \<Rightarrow> 'a list \<Rightarrow> app_error + 'a list" where
  "findMany_page skip tk rows =
     (if skip < 0 then Inl (PrismaError ''Invalid value for skip argument'')
      else if tk \<ge> 0 then Inr (take (nat tk) (drop (nat skip) rows))
      else Inr (rev (take (nat (- tk)) (drop (nat skip) (rev rows)))))"

text \<open>
  \<^verbatim>\<open>getWebhookDeliveries\<close> (lines 145 to 167): the ownership check, then the page of the
  subscription's rows, newest first, and their total.
\<close>

definition getWebhookDeliveries ::
  "string \<Rightarrow> string \<Rightarrow> int \<Rightarrow> int \<Rightarrow> 'p world \<Rightarrow> app_error + ('p WebhookDelivery list \<times> nat)" where
  "getWebhookDeliveries webhookId tenantId page limit w =
     (case getWebhook webhookId tenantId w of
        Inl e \<Rightarrow> Inl e
      | Inr _ \<Rightarrow>
          (let skip = (page - 1) * limit;
               rows = filter (\<lambda>d. d_webhookId d = webhookId) (deliveries w);
               ordered = sort_key (\<lambda>d. - int (d_createdAt d)) rows
           in (case findMany_page skip limit ordered of
                 Inl e \<Rightarrow> Inl e
               | Inr found \<Rightarrow> Inr (found, length rows))))"

subsection \<open>The event dispatcher\<close>

record trigger_result =
  triggered :: nat

text \<open>
  \<^verbatim>\<open>triggerWebhooks\<close> (lines 181 to 216): the tenant's active subscriptions whose events
  contain the event, one \<^verbatim>\<open>addWebhookJob\<close> for each in order, and their number. With no
  match it returns before the queue module is loaded.
\<close>

definition jobData :: "string \<Rightarrow> 'p \<Rightarrow> WebhookSubscription \<Rightarrow> 'p WebhookJobData" where
  "jobData event payload webhook =
     \<lparr> j_webhookId = s_id webhook, j_event = event, j_url = s_url webhook,
       j_secret = s_secret webhook, j_payload = payload \<rparr>"

definition matchingWebhooks :: "string \<Rightarrow> string \<Rightarrow> 'p world \<Rightarrow> WebhookSubscription list" where
  "matchingWebhooks event tenantId w =
     filter (\<lambda>s. s_tenantId s = tenantId \<and> s_isActive s \<and> event \<in> set (s_events s))
       (subscriptions w)"

definition triggerWebhooks :: "string \<Rightarrow> string \<Rightarrow> 'p \<Rightarrow> 'p world \<Rightarrow> trigger_result \<times> 'p world" where
  "triggerWebhooks event tenantId payload w =
     (let webhooks = matchingWebhooks event tenantId w in
      if length webhooks = 0 then (\<lparr> triggered = 0 \<rparr>, w)
      else (\<lparr> triggered = length webhooks \<rparr>,
            foldl (\<lambda>w' data. addWebhookJob data w') w (map (jobData event payload) webhooks)))"

subsection \<open>Sample data\<close>

text \<open>
  Concrete inputs for the instances below: two tenants, three subscriptions, two delivery
  rows, a plan, and endpoints with fixed behaviour. \<open>sample_hmac\<close>, \<open>sample_urlParses\<close> and
  \<open>sample_zodUrl\<close> are stand-ins for the library functions.
\<close>

definition sample_hmac :: "string \<Rightarrow> string \<Rightarrow> string" where
  "sample_hmac key msg = key @ ''#'' @ msg"

definition sample_urlParses :: "string \<Rightarrow> bool" where
  "sample_urlParses u = (take 8 u = ''https://'' \<and> length u > 8)"

definition sample_zodUrl :: "string \<Rightarrow> bool" where
  "sample_zodUrl u = sample_urlParses u"

definition sample_entropy :: "nat \<Rightarrow> 8 word" where
  "sample_entropy i = of_nat (7 * i + 3)"

definition sample_job :: "string WebhookJobData" where
  "sample_job =
     \<lparr> j_webhookId = ''wh1'', j_event = ''post.created'', j_url = ''https://a.example/hook'',
       j_secret = ''topsecret'', j_payload = ''{\"id\":1}'' \<rparr>"

definition sub_a :: WebhookSubscription where
  "sub_a =
     \<lparr> s_id = ''wh1'', s_tenantId = ''t1'', s_url = ''https://a.example/hook'',
       s_events = [''post.created'', ''post.deleted''], s_secret = ''topsecret'',
       s_isActive = True, s_description = None, s_createdBy = ''u1'',
       s_createdAt = 100, s_updatedAt = 100 \<rparr>"

definition sub_b :: WebhookSubscription where
  "sub_b =
     \<lparr> s_id = ''wh2'', s_tenantId = ''t2'', s_url = ''https://b.example/hook'',
       s_events = [''post.created''], s_secret = ''othersecret'',
       s_isActive = True, s_description = Some ''of tenant 2'', s_createdBy = ''u2'',
       s_createdAt = 200, s_updatedAt = 200 \<rparr>"

definition sub_c :: WebhookSubscription where
  "sub_c =
     \<lparr> s_id = ''wh3'', s_tenantId = ''t1'', s_url = ''https://c.example/hook'',
       s_events = [''post.created''], s_secret = ''thirdsecret'',
       s_isActive = False, s_description = None, s_createdBy = ''u1'',
       s_createdAt = 300, s_updatedAt = 300 \<rparr>"

definition delivery_a :: "string WebhookDelivery" where
  "delivery_a =
     \<lparr> d_id = ''d1'', d_webhookId = ''wh1'', d_event = ''post.created'', d_payload = ''{}'',
       d_url = ''https://a.example/hook'', d_statusCode = Some 200,
       d_responseBody = Some ''ok'', d_error = None, d_attempts = 1,
       d_deliveredAt = Some 150, d_createdAt = 150 \<rparr>"

definition delivery_b :: "string WebhookDelivery" where
  "delivery_b =
     \<lparr> d_id = ''d2'', d_webhookId = ''wh2'', d_event = ''post.created'', d_payload = ''{}'',
       d_url = ''https://b.example/hook'', d_statusCode = Some 200,
       d_responseBody = Some ''ok'', d_error = None, d_attempts = 1,
       d_deliveredAt = Some 250, d_createdAt = 250 \<rparr>"

definition sample_world :: "string world" where
  "sample_world =
     \<lparr> subscriptions = [sub_a, sub_b, sub_c], deliveries = [delivery_a, delivery_b],
       tenantPlans = [\<lparr> p_tenantId = ''t1'', p_maxWebhooks = 1 \<rparr>],
       webhookJobs = [], idCounter = 7 \<rparr>"

definition respond :: "nat \<Rightarrow> http_request \<Rightarrow> thrown + http_response" where
  "respond code rq = Inr \<lparr> status = code, text_result = Inr ''done'' \<rparr>"

text \<open>
  A store that accepts every row, and one that refuses a row whose response body or error
  text holds a NUL character, as PostgreSQL does for a text column.
\<close>

definition store_accepts :: "'p WebhookDelivery \<Rightarrow> thrown option" where
  "store_accepts row = None"



text \<open>
  The request that the first attempt of \<open>sample_job\<close> has to send at time 1700000000000,
  and an endpoint that answers 200 to that request and to no other.
\<close>

definition expected_request :: http_request where
  "expected_request =
     \<lparr> r_method = ''POST'', r_url = ''https://a.example/hook'',
       r_headers =
         [(''Content-Type'', ''application/json''),
          (''X-Webhook-Event'', ''post.created''),
          (''X-Webhook-Signature'', ''topsecret#1700000000000.{\"id\":1}''),
          (''X-Webhook-Timestamp'', ''1700000000000''),
          (''User-Agent'', ''Enterprise-SaaS-Webhook/1.0'')],
       r_body = ''{\"id\":1}'' \<rparr>"

definition endpoint_expecting :: "http_request \<Rightarrow> thrown + http_response" where
  "endpoint_expecting rq =
     (if rq = expected_request then Inr \<lparr> status = 200, text_result = Inr ''done'' \<rparr>
      else Inl (Error ''unexpected request''))"

definition endpoint_500_500_200 :: "nat \<Rightarrow> http_request \<Rightarrow> thrown + http_response" where
  "endpoint_500_500_200 made = (if made < 2 then respond 500 else respond 200)"

definition endpoint_always_500 :: "nat \<Rightarrow> http_request \<Rightarrow> thrown + http_response" where
  "endpoint_always_500 made = respond 500"


definition sample_clock :: "nat \<Rightarrow> nat \<times> nat" where
  "sample_clock made = (1700000000000 + 1000 * made, 1700000000005 + 1000 * made)"

section \<open>Properties\<close>

subsection \<open>Decimal rendering\<close>

lemma digit_value_digit_char:
  assumes "d < 10"
  shows "digit_value (digit_char d) = d"
proof -
  have "list_all (\<lambda>d. digit_value (digit_char d) = d) [0..<10]"
    by code_simp
  then show ?thesis
    using assms by (simp add: list_all_iff)
qed

lemma digit_value_digit_char_mod: "digit_value (digit_char n) = n mod 10"
proof -
  have "digit_char n = digit_char (n mod 10)" by (simp add: digit_char_def)
  then show ?thesis by (simp add: digit_value_digit_char)
qed

lemma read_nat_snoc: "read_nat (cs @ [c]) = 10 * read_nat cs + digit_value c"
  by (simp add: read_nat_def)

lemma read_show_nat: "read_nat (show_nat n) = n"
proof (induction n rule: show_nat.induct)
  case (1 n)
  show ?case
  proof (cases "n < 10")
    case True
    then show ?thesis
      by (subst show_nat.simps) (simp add: read_nat_def digit_value_digit_char)
  next
    case False
    with "1.IH" have "read_nat (show_nat (n div 10)) = n div 10" by simp
    then show ?thesis
      using False
      by (subst show_nat.simps) (simp add: read_nat_snoc digit_value_digit_char_mod)
  qed
qed

lemma show_nat_inject: "show_nat m = show_nat n \<Longrightarrow> m = n"
  by (metis read_show_nat)

subsection \<open>One attempt of the worker\<close>

lemma catch_block_outcome:
  "catch_block dbRefuses logTime job attemptNumber err w =
     (case dbRefuses
             \<lparr> d_id = genId (idCounter w), d_webhookId = j_webhookId job, d_event = j_event job,
               d_payload = j_payload job, d_url = j_url job, d_statusCode = None,
               d_responseBody = None, d_error = Some (errorMessage err),
               d_attempts = attemptNumber, d_deliveredAt = None, d_createdAt = logTime \<rparr> of
        None \<Rightarrow>
          (Inl err,
           w\<lparr> deliveries := deliveries w @
                [\<lparr> d_id = genId (idCounter w), d_webhookId = j_webhookId job,
                   d_event = j_event job, d_payload = j_payload job, d_url = j_url job,
                   d_statusCode = None, d_responseBody = None,
                   d_error = Some (errorMessage err), d_attempts = attemptNumber,
                   d_deliveredAt = None, d_createdAt = logTime \<rparr>],
              idCounter := Suc (idCounter w) \<rparr>)
      | Some err2 \<Rightarrow> (Inl err2, w))"
  by (simp add: catch_block_def delivery_create_def split: option.splits)

lemma catch_block_throws: "isl (fst (catch_block dbRefuses logTime job attemptNumber err w))"
  by (simp add: catch_block_outcome split: option.splits)

lemma catch_block_not_Inr: "fst (catch_block dbRefuses logTime job attemptNumber err w) \<noteq> Inr code"
  using catch_block_throws [of dbRefuses logTime job attemptNumber err w]
  by (cases "fst (catch_block dbRefuses logTime job attemptNumber err w)") simp_all

lemma delivery_create_Inr_iff:
  "(\<exists>w1. delivery_create dbRefuses now data w = Inr w1) =
   (dbRefuses (data\<lparr> d_id := genId (idCounter w), d_createdAt := now \<rparr>) = None)"
  by (simp add: delivery_create_def Let_def split: option.splits)

lemma refused_or_failed_throws:
  "isl (fst (case written of
               Inl err \<Rightarrow> catch_block dbRefuses logTime job attemptNumber err w
             | Inr w1 \<Rightarrow> catch_block dbRefuses logTime job attemptNumber err' w1))"
  by (cases written) (simp_all add: catch_block_throws)

lemma refused_or_delivered_returns_iff:
  "(fst (case written of
           Inl err \<Rightarrow> catch_block dbRefuses logTime job attemptNumber err w
         | Inr w1 \<Rightarrow> (Inr c, w1)) = Inr code) =
   ((\<exists>w1. written = Inr w1) \<and> c = code)"
  by (cases written) (auto simp: catch_block_not_Inr)

text \<open>
  The outcome of an attempt, by what \<^verbatim>\<open>fetch\<close> gives for the attempt's request and by
  which rows the store accepts. \<open>responseRow\<close> is the row of line 132, \<open>failureRow\<close> the row
  of line 157.
\<close>

lemma webhookProcessor_outcome:
  fixes job :: "'p WebhookJobData" and w :: "'p world"
    and dbRefuses hmacHex stringify fetch timestamp logTime attemptsMade
  defines "outcome \<equiv>
      webhookProcessor dbRefuses hmacHex stringify fetch timestamp logTime job attemptsMade w"
    and "failureRow \<equiv> \<lambda>err k.
      \<lparr> d_id = genId k, d_webhookId = j_webhookId job, d_event = j_event job,
         d_payload = j_payload job, d_url = j_url job, d_statusCode = None,
         d_responseBody = None, d_error = Some (errorMessage err),
         d_attempts = attemptsMade + 1, d_deliveredAt = None, d_createdAt = logTime \<rparr>"
    and "responseRow \<equiv> \<lambda>response.
      \<lparr> d_id = genId (idCounter w), d_webhookId = j_webhookId job, d_event = j_event job,
         d_payload = j_payload job, d_url = j_url job, d_statusCode = Some (status response),
         d_responseBody =
           Some (take 1000 (case text_result response of Inl _ \<Rightarrow> [] | Inr t \<Rightarrow> t)),
         d_error = (if response_ok response then None
                    else Some (''HTTP '' @ show_nat (status response))),
         d_attempts = attemptsMade + 1,
         d_deliveredAt = (if response_ok response then Some logTime else None),
         d_createdAt = logTime \<rparr>"
  shows
    "outcome =
     (case fetch (webhookRequest hmacHex stringify timestamp job) of
        Inl err \<Rightarrow>
          (case dbRefuses (failureRow err (idCounter w)) of
             None \<Rightarrow> (Inl err, w\<lparr> deliveries := deliveries w @ [failureRow err (idCounter w)],
                                  idCounter := Suc (idCounter w) \<rparr>)
           | Some err2 \<Rightarrow> (Inl err2, w))
      | Inr response \<Rightarrow>
          (case dbRefuses (responseRow response) of
             Some err \<Rightarrow>
               (case dbRefuses (failureRow err (idCounter w)) of
                  None \<Rightarrow> (Inl err, w\<lparr> deliveries := deliveries w @ [failureRow err (idCounter w)],
                                       idCounter := Suc (idCounter w) \<rparr>)
                | Some err2 \<Rightarrow> (Inl err2, w))
           | None \<Rightarrow>
               if response_ok response
               then (Inr (status response),
                     w\<lparr> deliveries := deliveries w @ [responseRow response],
                        idCounter := Suc (idCounter w) \<rparr>)
               else (case dbRefuses
                            (failureRow (Error (''Webhook delivery failed with status '' @
                                                show_nat (status response)))
                               (Suc (idCounter w))) of
                       None \<Rightarrow>
                         (Inl (Error (''Webhook delivery failed with status '' @
                                      show_nat (status response))),
                          w\<lparr> deliveries := deliveries w @
                               [responseRow response,
                                failureRow (Error (''Webhook delivery failed with status '' @
                                                   show_nat (status response)))
                                  (Suc (idCounter w))],
                             idCounter := Suc (Suc (idCounter w)) \<rparr>)
                     | Some err2 \<Rightarrow>
                         (Inl err2,
                          w\<lparr> deliveries := deliveries w @ [responseRow response],
                             idCounter := Suc (idCounter w) \<rparr>))))"
proof (cases "fetch (webhookRequest hmacHex stringify timestamp job)")
  case (Inl err)
  then show ?thesis
    unfolding outcome_def failureRow_def responseRow_def
    by (simp add: webhookProcessor_def catch_block_outcome split: option.splits)
next
  case (Inr response)
  show ?thesis
  proof (cases "response_ok response")
    case True
    then show ?thesis
      unfolding outcome_def failureRow_def responseRow_def
      using Inr
      by (simp add: webhookProcessor_def catch_block_outcome delivery_create_def Let_def
          split: option.splits)
  next
    case False
    then show ?thesis
      unfolding outcome_def failureRow_def responseRow_def
      using Inr
      by (simp add: webhookProcessor_def catch_block_outcome delivery_create_def Let_def
          split: option.splits)
  qed
qed

lemma processor_reads_fetch_once:
  "webhookProcessor dbRefuses hmacHex stringify fetch timestamp logTime job attemptsMade w =
   webhookProcessor dbRefuses hmacHex stringify
     (\<lambda>_. fetch (webhookRequest hmacHex stringify timestamp job))
     timestamp logTime job attemptsMade w"
  by (simp add: webhookProcessor_def)

lemma processor_fails_without_2xx:
  assumes "case fetch (webhookRequest hmacHex stringify timestamp job) of
             Inr response \<Rightarrow> \<not> response_ok response | Inl err \<Rightarrow> True"
  shows "isl (fst (webhookProcessor dbRefuses hmacHex stringify fetch timestamp logTime job
                     attemptsMade w))"
proof (cases "fetch (webhookRequest hmacHex stringify timestamp job)")
  case (Inl err)
  then show ?thesis
    by (simp add: webhookProcessor_def catch_block_throws)
next
  case (Inr response)
  with assms have "\<not> response_ok response" by simp
  with Inr show ?thesis
    by (simp add: webhookProcessor_def Let_def refused_or_failed_throws cong: sum.case_cong)
qed

text \<open>
  Claim C3. The request of an attempt is a POST to the job's url whose body is the
  JSON-serialised payload and whose five headers give the content type
  \<^verbatim>\<open>application/json\<close>, the event name, the signature, the timestamp in decimal and the
  fixed user agent. The signature is the hex HMAC-SHA256, keyed by the job's secret, of the
  timestamp, a dot and the JSON-serialised payload; it is a function of secret, timestamp
  and payload alone. Every attempt sends this request and no other: what the attempt
  returns and logs is decided by the endpoint's answer to this request. The processor
  returns a status exactly when the answer to this request is a 2xx response with that
  status whose log row the store accepts; with a store that accepts every row, the result
  and the logged status codes are those of the answer to this request.
\<close>

theorem C3_signed_request:
  fixes job :: "'p WebhookJobData" and w :: "'p world"
    and dbRefuses hmacHex stringify fetch timestamp logTime attemptsMade code
  defines "rq \<equiv> webhookRequest hmacHex stringify timestamp job"
  shows
    "r_method rq = ''POST'' \<and>
     r_url rq = j_url job \<and>
     r_body rq = stringify (j_payload job) \<and>
     map fst (r_headers rq) =
       [''Content-Type'', ''X-Webhook-Event'', ''X-Webhook-Signature'', ''X-Webhook-Timestamp'',
        ''User-Agent''] \<and>
     map_of (r_headers rq) ''Content-Type'' = Some ''application/json'' \<and>
     map_of (r_headers rq) ''X-Webhook-Event'' = Some (j_event job) \<and>
     map_of (r_headers rq) ''X-Webhook-Signature'' =
       Some (hmacHex (j_secret job) (show_nat timestamp @ ''.'' @ stringify (j_payload job))) \<and>
     map_of (r_headers rq) ''X-Webhook-Timestamp'' = Some (show_nat timestamp) \<and>
     map_of (r_headers rq) ''User-Agent'' = Some ''Enterprise-SaaS-Webhook/1.0'' \<and>
     webhookProcessor dbRefuses hmacHex stringify fetch timestamp logTime job attemptsMade w =
       webhookProcessor dbRefuses hmacHex stringify (\<lambda>_. fetch rq) timestamp logTime job
         attemptsMade w \<and>
     (fst (webhookProcessor dbRefuses hmacHex stringify fetch timestamp logTime job
             attemptsMade w) = Inr code) =
       (\<exists>response. fetch rq = Inr response \<and> response_ok response \<and> status response = code \<and>
          dbRefuses
            \<lparr> d_id = genId (idCounter w), d_webhookId = j_webhookId job,
               d_event = j_event job, d_payload = j_payload job, d_url = j_url job,
               d_statusCode = Some (status response),
               d_responseBody =
                 Some (take 1000 (case text_result response of Inl _ \<Rightarrow> [] | Inr t \<Rightarrow> t)),
               d_error = None, d_attempts = attemptsMade + 1,
               d_deliveredAt = Some logTime, d_createdAt = logTime \<rparr> = None) \<and>
     fst (webhookProcessor store_accepts hmacHex stringify fetch timestamp logTime job
            attemptsMade w) =
       (case fetch rq of
          Inl err \<Rightarrow> Inl err
        | Inr response \<Rightarrow>
            if response_ok response then Inr (status response)
            else Inl (Error (''Webhook delivery failed with status '' @
                             show_nat (status response)))) \<and>
     map d_statusCode
       (drop (length (deliveries w))
          (deliveries (snd (webhookProcessor store_accepts hmacHex stringify fetch timestamp
                              logTime job attemptsMade w)))) =
       (case fetch rq of
          Inl err \<Rightarrow> [None]
        | Inr response \<Rightarrow>
            if response_ok response then [Some (status response)]
            else [Some (status response), None])"
proof -
  have request: "r_method rq = ''POST'' \<and>
     r_url rq = j_url job \<and>
     r_body rq = stringify (j_payload job) \<and>
     map fst (r_headers rq) =
       [''Content-Type'', ''X-Webhook-Event'', ''X-Webhook-Signature'', ''X-Webhook-Timestamp'',
        ''User-Agent''] \<and>
     map_of (r_headers rq) ''Content-Type'' = Some ''application/json'' \<and>
     map_of (r_headers rq) ''X-Webhook-Event'' = Some (j_event job) \<and>
     map_of (r_headers rq) ''X-Webhook-Signature'' =
       Some (hmacHex (j_secret job) (show_nat timestamp @ ''.'' @ stringify (j_payload job))) \<and>
     map_of (r_headers rq) ''X-Webhook-Timestamp'' = Some (show_nat timestamp) \<and>
     map_of (r_headers rq) ''User-Agent'' = Some ''Enterprise-SaaS-Webhook/1.0''"
    by (simp add: rq_def webhookRequest_def signaturePayload_def Let_def)
  have once: "webhookProcessor dbRefuses hmacHex stringify fetch timestamp logTime job
       attemptsMade w =
     webhookProcessor dbRefuses hmacHex stringify (\<lambda>_. fetch rq) timestamp logTime job
       attemptsMade w"
    unfolding rq_def by (rule processor_reads_fetch_once)
  have returns: "(fst (webhookProcessor dbRefuses hmacHex stringify fetch timestamp logTime job
             attemptsMade w) = Inr code) =
       (\<exists>response. fetch rq = Inr response \<and> response_ok response \<and> status response = code \<and>
          dbRefuses
            \<lparr> d_id = genId (idCounter w), d_webhookId = j_webhookId job,
               d_event = j_event job, d_payload = j_payload job, d_url = j_url job,
               d_statusCode = Some (status response),
               d_responseBody =
                 Some (take 1000 (case text_result response of Inl _ \<Rightarrow> [] | Inr t \<Rightarrow> t)),
               d_error = None, d_attempts = attemptsMade + 1,
               d_deliveredAt = Some logTime, d_createdAt = logTime \<rparr> = None)"
  proof (cases "fetch rq")
    case (Inl err)
    then show ?thesis
      unfolding rq_def
      by (simp add: webhookProcessor_def catch_block_not_Inr)
  next
    case (Inr response)
    show ?thesis
    proof (cases "response_ok response")
      case True
      with Inr show ?thesis
        unfolding rq_def
        by (auto simp: webhookProcessor_def Let_def refused_or_delivered_returns_iff
            delivery_create_Inr_iff cong: sum.case_cong)
    next
      case False
      have "isl (fst (webhookProcessor dbRefuses hmacHex stringify fetch timestamp logTime job
                        attemptsMade w))"
        using Inr False unfolding rq_def by (intro processor_fails_without_2xx) simp
      then have "fst (webhookProcessor dbRefuses hmacHex stringify fetch timestamp logTime job
                        attemptsMade w) \<noteq> Inr code"
        by auto
      with Inr False show ?thesis
        by auto
    qed
  qed
  have accepted: "fst (webhookProcessor store_accepts hmacHex stringify fetch timestamp logTime
            job attemptsMade w) =
       (case fetch rq of
          Inl err \<Rightarrow> Inl err
        | Inr response \<Rightarrow>
            if response_ok response then Inr (status response)
            else Inl (Error (''Webhook delivery failed with status '' @
                             show_nat (status response))))"
    unfolding rq_def
    by (simp add: webhookProcessor_outcome store_accepts_def split: sum.splits)
  have logged: "map d_statusCode
       (drop (length (deliveries w))
          (deliveries (snd (webhookProcessor store_accepts hmacHex stringify fetch timestamp
                              logTime job attemptsMade w)))) =
       (case fetch rq of
          Inl err \<Rightarrow> [None]
        | Inr response \<Rightarrow>
            if response_ok response then [Some (status response)]
            else [Some (status response), None])"
    unfolding rq_def
    by (simp add: webhookProcessor_outcome store_accepts_def split: sum.splits)
  show ?thesis
    using request once returns accepted logged by blast
qed

theorem C3_signed_request_sample:
  "webhookRequest sample_hmac (\<lambda>p. p) 1700000000000 sample_job = expected_request \<and>
   map_of (r_headers (webhookRequest sample_hmac (\<lambda>p. p) 1700000000000 sample_job))
     ''X-Webhook-Signature'' = Some ''topsecret#1700000000000.{\"id\":1}'' \<and>
   map_of (r_headers (webhookRequest sample_hmac (\<lambda>p. p) 1700000000000 sample_job))
     ''X-Webhook-Timestamp'' = Some ''1700000000000'' \<and>
   r_body (webhookRequest sample_hmac (\<lambda>p. p) 1700000000000 sample_job) = ''{\"id\":1}'' \<and>
   fst (webhookProcessor store_accepts sample_hmac (\<lambda>p. p) endpoint_expecting 1700000000000
          1700000000005 sample_job 0 sample_world) = Inr 200 \<and>
   map d_statusCode
     (drop (length (deliveries sample_world))
        (deliveries (snd (webhookProcessor store_accepts sample_hmac (\<lambda>p. p) endpoint_expecting
                            1700000000000 1700000000005 sample_job 0 sample_world)))) =
     [Some 200]"
proof -
  have rq: "webhookRequest sample_hmac (\<lambda>p. p) 1700000000000 sample_job = expected_request"
    by (simp add: webhookRequest_def signaturePayload_def expected_request_def sample_hmac_def
        sample_job_def show_nat.simps digit_char_def)
  have answer: "endpoint_expecting expected_request =
      Inr \<lparr> status = 200, text_result = Inr ''done'' \<rparr>"
    by (simp add: endpoint_expecting_def)
  have ok: "response_ok \<lparr> status = 200, text_result = Inr ''done'' \<rparr>"
    by (simp add: response_ok_def)
  note a = C3_signed_request [where hmacHex = sample_hmac and stringify = "\<lambda>p. p"
      and timestamp = 1700000000000 and job = sample_job and fetch = endpoint_expecting
      and logTime = 1700000000005 and attemptsMade = 0 and w = sample_world
      and dbRefuses = store_accepts and code = 200]
  note signature = a [THEN conjunct2, THEN conjunct2, THEN conjunct2, THEN conjunct2,
      THEN conjunct2, THEN conjunct2, THEN conjunct1]
  note stamp = a [THEN conjunct2, THEN conjunct2, THEN conjunct2, THEN conjunct2,
      THEN conjunct2, THEN conjunct2, THEN conjunct2, THEN conjunct1]
  note body = a [THEN conjunct2, THEN conjunct2, THEN conjunct1]
  note result = a [THEN conjunct2, THEN conjunct2, THEN conjunct2, THEN conjunct2,
      THEN conjunct2, THEN conjunct2, THEN conjunct2, THEN conjunct2, THEN conjunct2,
      THEN conjunct2, THEN conjunct2, THEN conjunct1]
  note logged = a [THEN conjunct2, THEN conjunct2, THEN conjunct2, THEN conjunct2,
      THEN conjunct2, THEN conjunct2, THEN conjunct2, THEN conjunct2, THEN conjunct2,
      THEN conjunct2, THEN conjunct2, THEN conjunct2]
  have sig: "map_of (r_headers (webhookRequest sample_hmac (\<lambda>p. p) 1700000000000 sample_job))
      ''X-Webhook-Signature'' = Some ''topsecret#1700000000000.{\"id\":1}''"
    using signature
    by (simp add: sample_hmac_def sample_job_def show_nat.simps digit_char_def)
  have ts: "map_of (r_headers (webhookRequest sample_hmac (\<lambda>p. p) 1700000000000 sample_job))
      ''X-Webhook-Timestamp'' = Some ''1700000000000''"
    using stamp by (simp add: show_nat.simps digit_char_def)
  have bd: "r_body (webhookRequest sample_hmac (\<lambda>p. p) 1700000000000 sample_job) = ''{\"id\":1}''"
    using body by (simp add: sample_job_def)
  have res: "fst (webhookProcessor store_accepts sample_hmac (\<lambda>p. p) endpoint_expecting
          1700000000000 1700000000005 sample_job 0 sample_world) = Inr 200"
    using result by (simp add: rq answer ok)
  have lg: "map d_statusCode
     (drop (length (deliveries sample_world))
        (deliveries (snd (webhookProcessor store_accepts sample_hmac (\<lambda>p. p) endpoint_expecting
                            1700000000000 1700000000005 sample_job 0 sample_world)))) =
     [Some 200]"
    using logged by (simp add: rq answer ok)
  show ?thesis
    using rq sig ts bd res lg by blast
qed




subsection \<open>The retry loop\<close>

lemma runJob_last_attempt:
  assumes "\<not> (isl (fst (processor attemptsMade w)) \<and> attemptsMade + 1 < attempts opts)"
  shows "runJob opts processor attemptsMade w =
     \<lparr> run_state = (if isl (fst (processor attemptsMade w)) then EXHAUSTED else SUCCEEDED),
       run_attempts = [attemptsMade + 1], run_delays = [],
       run_world = snd (processor attemptsMade w) \<rparr>"
  by (subst runJob.simps) (simp only: Let_def assms simp_thms if_False)

lemma runJob_retry:
  assumes "isl (fst (processor attemptsMade w)) \<and> attemptsMade + 1 < attempts opts"
  shows "runJob opts processor attemptsMade w =
     (runJob opts processor (attemptsMade + 1) (snd (processor attemptsMade w)))
       \<lparr> run_attempts := (attemptsMade + 1) #
            run_attempts (runJob opts processor (attemptsMade + 1) (snd (processor attemptsMade w))),
         run_delays := backoff_delay (backoff opts) (attemptsMade + 1) #
            run_delays (runJob opts processor (attemptsMade + 1) (snd (processor attemptsMade w))) \<rparr>"
  by (subst runJob.simps) (simp only: Let_def assms simp_thms if_True)

lemma runJob_trace:
  "\<exists>n. run_attempts (runJob opts processor made w) = [Suc made ..< Suc (Suc made + n)] \<and>
        run_delays (runJob opts processor made w) =
          map (backoff_delay (backoff opts)) [Suc made ..< Suc made + n] \<and>
        Suc n \<le> max 1 (attempts opts - made)"
proof (induction opts processor made w rule: runJob.induct)
  case (1 opts processor attemptsMade w)
  show ?case
  proof (cases "isl (fst (processor attemptsMade w)) \<and> attemptsMade + 1 < attempts opts")
    case False
    note eq = runJob_last_attempt [where processor = processor, OF False]
    have "run_attempts (runJob opts processor attemptsMade w) =
            [Suc attemptsMade ..< Suc (Suc attemptsMade + 0)]"
      by (simp add: eq)
    moreover have "run_delays (runJob opts processor attemptsMade w) =
            map (backoff_delay (backoff opts)) [Suc attemptsMade ..< Suc attemptsMade + 0]"
      by (simp add: eq)
    ultimately show ?thesis
      by (intro exI [of _ 0]) simp
  next
    case True
    define r where "r = runJob opts processor (attemptsMade + 1) (snd (processor attemptsMade w))"
    from "1.IH" [OF refl True] obtain n where
      att: "run_attempts r = [Suc (Suc attemptsMade) ..< Suc (Suc (Suc attemptsMade) + n)]" and
      del: "run_delays r =
              map (backoff_delay (backoff opts)) [Suc (Suc attemptsMade) ..< Suc (Suc attemptsMade) + n]" and
      bound: "Suc n \<le> max 1 (attempts opts - Suc attemptsMade)"
      unfolding r_def by auto
    note eq = runJob_retry [where processor = processor, OF True, folded r_def]
    have "run_attempts (runJob opts processor attemptsMade w) =
            [Suc attemptsMade ..< Suc (Suc attemptsMade + Suc n)]"
      by (simp add: eq att upt_rec [of "Suc attemptsMade"] del: upt_Suc)
    moreover have "run_delays (runJob opts processor attemptsMade w) =
            map (backoff_delay (backoff opts)) [Suc attemptsMade ..< Suc attemptsMade + Suc n]"
      by (simp add: eq del upt_rec [of "Suc attemptsMade"] del: upt_Suc)
    moreover have "Suc (Suc n) \<le> max 1 (attempts opts - attemptsMade)"
      using bound True by arith
    ultimately show ?thesis
      by (intro exI [of _ "Suc n"]) simp
  qed
qed

lemma runJob_all_fail:
  assumes "\<And>made w. isl (fst (processor made w))"
  shows "run_state (runJob opts processor made w) = EXHAUSTED \<and>
         Suc (length (run_delays (runJob opts processor made w))) = max 1 (attempts opts - made)"
  using assms
proof (induction opts processor made w rule: runJob.induct)
  case (1 opts processor attemptsMade w)
  have a: "isl (fst (processor attemptsMade w))" by (rule "1.prems")
  show ?case
  proof (cases "attemptsMade + 1 < attempts opts")
    case False
    then have n: "\<not> (isl (fst (processor attemptsMade w)) \<and> attemptsMade + 1 < attempts opts)"
      by simp
    note eq = runJob_last_attempt [where processor = processor, OF n]
    show ?thesis using a False by (simp add: eq)
  next
    case True
    note c = conjI [OF a True]
    note IH = "1.IH" [OF refl c "1.prems"]
    note eq = runJob_retry [where processor = processor, OF c]
    show ?thesis
      using IH True by (simp add: eq)
  qed
qed

lemma webhookQueue_delay_table:
  assumes "n \<le> 4"
  shows "map (backoff_delay (Exponential 5000)) [Suc 0 ..< Suc n] = take n [5000, 10000, 20000, 40000]"
proof -
  from assms consider "n = 0" | "n = Suc 0" | "n = Suc (Suc 0)" | "n = Suc (Suc (Suc 0))"
    | "n = Suc (Suc (Suc (Suc 0)))" by linarith
  then show ?thesis
    by cases simp_all
qed

text \<open>
  Claim C5, as amended. A webhook job is attempted at most 5 times, with ordinals 1, 2, ...
  in order, and the waits before attempts 2 to 5 are 5, 10, 20 and 40 seconds (base 5
  seconds, doubled after each failure): four waits for four retries. When every attempt
  fails there are exactly 5 attempts, the job ends exhausted, and no sixth attempt and no
  wait of 80 seconds occurs.
\<close>

theorem C5_retry_budget:
  "length (run_attempts (runWebhookJob dbRefuses hmacHex stringify fetchAt clock job w)) \<le> 5 \<and>
   run_attempts (runWebhookJob dbRefuses hmacHex stringify fetchAt clock job w) =
     [1 ..< Suc (length (run_attempts (runWebhookJob dbRefuses hmacHex stringify fetchAt clock job w)))] \<and>
   run_delays (runWebhookJob dbRefuses hmacHex stringify fetchAt clock job w) =
     take (length (run_attempts (runWebhookJob dbRefuses hmacHex stringify fetchAt clock job w)) - 1)
       [5000, 10000, 20000, 40000] \<and>
   ((\<forall>made rq. \<not> (\<exists>response. fetchAt made rq = Inr response \<and> response_ok response)) \<longrightarrow>
      run_state (runWebhookJob dbRefuses hmacHex stringify fetchAt clock job w) = EXHAUSTED \<and>
      run_attempts (runWebhookJob dbRefuses hmacHex stringify fetchAt clock job w) = [1, 2, 3, 4, 5] \<and>
      run_delays (runWebhookJob dbRefuses hmacHex stringify fetchAt clock job w) =
        [5000, 10000, 20000, 40000])"
proof -
  define processor where
    "processor = (\<lambda>made. webhookProcessor dbRefuses hmacHex stringify (fetchAt made)
                   (fst (clock made)) (snd (clock made)) job made)"
  define r where "r = runJob webhookQueue_defaultJobOptions processor 0 w"
  have r_eq: "runWebhookJob dbRefuses hmacHex stringify fetchAt clock job w = r"
    by (simp add: runWebhookJob_def r_def processor_def)
  obtain n where
    att: "run_attempts r = [Suc 0 ..< Suc (Suc 0 + n)]" and
    del: "run_delays r = map (backoff_delay (Exponential 5000)) [Suc 0 ..< Suc 0 + n]" and
    bound: "Suc n \<le> 5"
    using runJob_trace [of webhookQueue_defaultJobOptions processor 0 w]
    unfolding r_def by (auto simp: webhookQueue_defaultJobOptions_def)
  have len: "length (run_attempts r) = Suc n"
    by (simp add: att)
  have n4: "n \<le> 4"
    using bound by simp
  have delays: "run_delays r = take n [5000, 10000, 20000, 40000]"
    using webhookQueue_delay_table [OF n4] by (simp add: del)
  have all_fail: "run_state r = EXHAUSTED \<and> run_attempts r = [1, 2, 3, 4, 5] \<and>
      run_delays r = [5000, 10000, 20000, 40000]"
    if fails: "\<forall>made rq. \<not> (\<exists>response. fetchAt made rq = Inr response \<and> response_ok response)"
  proof -
    have "isl (fst (processor made w'))" for made w'
    proof -
      have "case fetchAt made (webhookRequest hmacHex stringify (fst (clock made)) job) of
              Inr response \<Rightarrow> \<not> response_ok response | Inl err \<Rightarrow> True"
        using fails by (auto split: sum.splits)
      then show ?thesis
        unfolding processor_def by (rule processor_fails_without_2xx)
    qed
    then have ex: "run_state r = EXHAUSTED" and "Suc (length (run_delays r)) = 5"
      using runJob_all_fail [of processor webhookQueue_defaultJobOptions 0 w]
      unfolding r_def by (simp_all add: webhookQueue_defaultJobOptions_def)
    then have "n = 4"
      using n4 by (simp add: delays)
    moreover have "[Suc 0 ..< Suc (Suc 0 + 4)] = [1, 2, 3, 4, 5]"
      by (simp add: upt_rec)
    ultimately show ?thesis
      using ex by (simp only: att delays) simp
  qed
  have c1: "length (run_attempts r) \<le> 5"
    using bound by (simp add: len)
  have c2: "run_attempts r = [1 ..< Suc (length (run_attempts r))]"
    by (simp only: len) (simp add: att)
  have c3: "run_delays r = take (length (run_attempts r) - 1) [5000, 10000, 20000, 40000]"
    by (simp only: len) (simp add: delays)
  show ?thesis
    unfolding r_eq using c1 c2 c3 all_fail by blast
qed

theorem C5_retry_budget_always_500:
  "(\<forall>made rq. \<not> (\<exists>response. endpoint_always_500 made rq = Inr response \<and> response_ok response)) \<and>
   run_state (runWebhookJob store_accepts sample_hmac (\<lambda>p. p) endpoint_always_500 sample_clock sample_job
                sample_world) = EXHAUSTED \<and>
   run_attempts (runWebhookJob store_accepts sample_hmac (\<lambda>p. p) endpoint_always_500 sample_clock sample_job
                   sample_world) = [1, 2, 3, 4, 5] \<and>
   run_delays (runWebhookJob store_accepts sample_hmac (\<lambda>p. p) endpoint_always_500 sample_clock sample_job
                 sample_world) = [5000, 10000, 20000, 40000]"
proof -
  have fails: "\<forall>made rq. \<not> (\<exists>response. endpoint_always_500 made rq = Inr response \<and>
                                  response_ok response)"
    by (auto simp: endpoint_always_500_def respond_def response_ok_def)
  show ?thesis
    using fails
      C5_retry_budget [where dbRefuses = store_accepts and fetchAt = endpoint_always_500
        and hmacHex = sample_hmac
        and stringify = "\<lambda>p. p" and clock = sample_clock and job = sample_job
        and w = sample_world]
    by blast
qed

text \<open>
  The claim as stated lists five waits, 5, 10, 20, 40 and 80 seconds, before attempts 2 to
  5. For an endpoint that always answers 500 the job makes its five attempts with four waits,
  and 80 seconds is not among them.
\<close>

theorem C5_no_fifth_delay:
  "run_attempts (runWebhookJob store_accepts sample_hmac (\<lambda>p. p) endpoint_always_500 sample_clock sample_job
                   sample_world) = [1, 2, 3, 4, 5] \<and>
   run_delays (runWebhookJob store_accepts sample_hmac (\<lambda>p. p) endpoint_always_500 sample_clock sample_job
                 sample_world) \<noteq> [5000, 10000, 20000, 40000, 80000] \<and>
   80000 \<notin> set (run_delays (runWebhookJob store_accepts sample_hmac (\<lambda>p. p) endpoint_always_500 sample_clock
                          sample_job sample_world))"
  by (simp add: runWebhookJob_def runJob.simps webhookQueue_defaultJobOptions_def
      webhookProcessor_def catch_block_def delivery_create_def store_accepts_def Let_def
      endpoint_always_500_def respond_def response_ok_def)

text \<open>
  A response outside 200 to 299, with a store that accepts every row: the row of line 132
  is written, the \<^verbatim>\<open>throw\<close> of line 147 is caught by the processor's own \<^verbatim>\<open>catch\<close>, and the
  row of line 157 follows it.
\<close>

lemma processor_http_failure:
  assumes "fetch (webhookRequest hmacHex stringify timestamp job) = Inr response"
    and "\<not> response_ok response"
  shows "webhookProcessor store_accepts hmacHex stringify fetch timestamp logTime job
           attemptsMade w =
     (Inl (Error (''Webhook delivery failed with status '' @ show_nat (status response))),
      w\<lparr> deliveries := deliveries w @
           [\<lparr> d_id = genId (idCounter w), d_webhookId = j_webhookId job, d_event = j_event job,
              d_payload = j_payload job, d_url = j_url job,
              d_statusCode = Some (status response),
              d_responseBody =
                Some (take 1000 (case text_result response of Inl _ \<Rightarrow> [] | Inr t \<Rightarrow> t)),
              d_error = Some (''HTTP '' @ show_nat (status response)),
              d_attempts = attemptsMade + 1, d_deliveredAt = None, d_createdAt = logTime \<rparr>,
            \<lparr> d_id = genId (Suc (idCounter w)), d_webhookId = j_webhookId job,
              d_event = j_event job, d_payload = j_payload job, d_url = j_url job,
              d_statusCode = None, d_responseBody = None,
              d_error = Some (''Webhook delivery failed with status '' @
                              show_nat (status response)),
              d_attempts = attemptsMade + 1, d_deliveredAt = None, d_createdAt = logTime \<rparr>],
          idCounter := Suc (Suc (idCounter w)) \<rparr>)"
  using assms by (simp add: webhookProcessor_outcome store_accepts_def)

text \<open>
  Claim C1. The claim wants one new row per attempt. For an endpoint that answers 500 twice
  and then 200, and a store that accepts every row, the job writes five rows: each failed
  attempt leaves two rows with the same ordinal, the second without a status, and the third
  attempt leaves one.
\<close>

theorem C1_rows_for_500_500_200:
  "map (\<lambda>d. (d_attempts d, d_statusCode d, d_deliveredAt d))
     (drop (length (deliveries w))
        (deliveries (run_world
           (runWebhookJob store_accepts hmacHex stringify endpoint_500_500_200 clock job w)))) =
   [(1, Some 500, None), (1, None, None), (2, Some 500, None), (2, None, None),
    (3, Some 200, Some (snd (clock 2)))]"
  by (simp add: runWebhookJob_def runJob.simps webhookQueue_defaultJobOptions_def
      webhookProcessor_def catch_block_def delivery_create_def store_accepts_def Let_def
      endpoint_500_500_200_def respond_def response_ok_def numeral_2_eq_2)


subsection \<open>The event dispatcher\<close>

lemma foldl_addWebhookJob:
  "foldl (\<lambda>w' data. addWebhookJob data w') w ds =
     w\<lparr> webhookJobs := webhookJobs w @
          map (\<lambda>data. \<lparr> q_name = ''webhook-'' @ j_event data, q_data = data \<rparr>) ds \<rparr>"
proof (induction ds arbitrary: w)
  case Nil
  show ?case by simp
next
  case (Cons d ds)
  show ?case by (simp only: foldl.simps Cons.IH) (simp add: addWebhookJob_def)
qed

text \<open>
  Claim C2. \<^verbatim>\<open>triggerWebhooks\<close> returns the number of the tenant's active subscriptions
  whose events contain the event, and appends to the queue one job for each of them, in
  order, named after the event and carrying the subscription's id, url and secret as they
  are at that moment together with the event and the payload. Nothing else of the stores
  changes, and with no matching subscription the result is 0 and the queue is as before.
\<close>

theorem C2_dispatch_fanout:
  "triggerWebhooks event tenantId payload w =
     (\<lparr> triggered = length (filter (\<lambda>s. s_tenantId s = tenantId \<and> s_isActive s \<and>
                                        event \<in> set (s_events s)) (subscriptions w)) \<rparr>,
      w\<lparr> webhookJobs := webhookJobs w @
           map (\<lambda>s. \<lparr> q_name = ''webhook-'' @ event,
                      q_data = \<lparr> j_webhookId = s_id s, j_event = event, j_url = s_url s,
                                 j_secret = s_secret s, j_payload = payload \<rparr> \<rparr>)
             (filter (\<lambda>s. s_tenantId s = tenantId \<and> s_isActive s \<and>
                          event \<in> set (s_events s)) (subscriptions w)) \<rparr>) \<and>
   (filter (\<lambda>s. s_tenantId s = tenantId \<and> s_isActive s \<and> event \<in> set (s_events s))
      (subscriptions w) = [] \<longrightarrow>
      triggerWebhooks event tenantId payload w = (\<lparr> triggered = 0 \<rparr>, w))"
  by (auto simp: triggerWebhooks_def matchingWebhooks_def Let_def foldl_addWebhookJob
      jobData_def comp_def)

theorem C2_dispatch_fanout_sample:
  "filter (\<lambda>s. s_tenantId s = ''t2'' \<and> s_isActive s \<and> ''post.deleted'' \<in> set (s_events s))
     (subscriptions sample_world) = [] \<and>
   triggerWebhooks ''post.deleted'' ''t2'' ''{}'' sample_world =
     (\<lparr> triggered = 0 \<rparr>, sample_world) \<and>
   fst (triggerWebhooks ''post.created'' ''t1'' ''{}'' sample_world) = \<lparr> triggered = 1 \<rparr> \<and>
   webhookJobs (snd (triggerWebhooks ''post.created'' ''t1'' ''{}'' sample_world)) =
     [\<lparr> q_name = ''webhook-post.created'',
        q_data = \<lparr> j_webhookId = ''wh1'', j_event = ''post.created'',
                   j_url = ''https://a.example/hook'', j_secret = ''topsecret'',
                   j_payload = ''{}'' \<rparr> \<rparr>]"
proof -
  have none: "filter (\<lambda>s. s_tenantId s = ''t2'' \<and> s_isActive s \<and>
                          ''post.deleted'' \<in> set (s_events s))
                (subscriptions sample_world) = []"
    by (simp add: sample_world_def sub_a_def sub_b_def sub_c_def)
  have one: "filter (\<lambda>s. s_tenantId s = ''t1'' \<and> s_isActive s \<and>
                         ''post.created'' \<in> set (s_events s))
               (subscriptions sample_world) = [sub_a]"
    by (simp add: sample_world_def sub_a_def sub_b_def sub_c_def)
  note a = C2_dispatch_fanout [where event = "''post.deleted''" and tenantId = "''t2''"
      and payload = "''{}''" and w = sample_world, THEN conjunct2, THEN mp, OF none]
  note b = C2_dispatch_fanout [where event = "''post.created''" and tenantId = "''t1''"
      and payload = "''{}''" and w = sample_world, THEN conjunct1, unfolded one]
  have c: "webhookJobs sample_world = []"
    by (simp add: sample_world_def)
  show ?thesis
    using none a b c by (simp add: sub_a_def)
qed

subsection \<open>Tenant scoping of the registry\<close>

lemma getWebhook_NotFound:
  assumes "\<not> (\<exists>s \<in> set (subscriptions w). s_id s = webhookId \<and> s_tenantId s = tenantId)"
  shows "getWebhook webhookId tenantId w = Inl (NotFoundError ''Webhook not found'')"
proof -
  have "find (\<lambda>s. s_id s = webhookId \<and> s_tenantId s = tenantId) (subscriptions w) = None"
    using assms by (simp add: find_None_iff)
  then show ?thesis by (simp add: getWebhook_def)
qed

lemma getWebhook_Inr:
  assumes "getWebhook webhookId tenantId w = Inr s"
  shows "s \<in> set (subscriptions w) \<and> s_id s = webhookId \<and> s_tenantId s = tenantId"
proof -
  from assms have "find (\<lambda>s. s_id s = webhookId \<and> s_tenantId s = tenantId) (subscriptions w) = Some s"
    by (simp add: getWebhook_def split: option.splits)
  then show ?thesis
    by (auto simp: find_Some_iff)
qed

lemma getWebhook_cases:
  "getWebhook webhookId tenantId w = Inl (NotFoundError ''Webhook not found'') \<or>
   (\<exists>s. getWebhook webhookId tenantId w = Inr s)"
  by (simp add: getWebhook_def split: option.splits)

lemma find_by_id_Some:
  assumes "s \<in> set rows" 
  shows "\<exists>r. find (\<lambda>r. s_id r = s_id s) rows = Some r \<and> s_id r = s_id s \<and> r \<in> set rows"
proof (cases "find (\<lambda>r. s_id r = s_id s) rows")
  case None
  then show ?thesis using assms by (auto simp: find_None_iff)
next
  case (Some r)
  then show ?thesis by (auto simp: find_Some_iff)
qed

lemma distinct_ids_unique:
  assumes "distinct (map s_id rows)" and "r \<in> set rows" and "s \<in> set rows" and "s_id r = s_id s"
  shows "r = s"
  using assms by (meson distinct_map inj_onD)

lemma set_findMany_page:
  assumes "findMany_page skip tk rows = Inr found"
  shows "set found \<subseteq> set rows"
  using assms
  by (auto simp: findMany_page_def split: if_splits dest!: in_set_takeD in_set_dropD)

lemma getWebhookDeliveries_rows:
  assumes "getWebhookDeliveries webhookId tenantId page limit w = Inr (rows, n_total)"
  shows "(\<exists>s \<in> set (subscriptions w). s_id s = webhookId \<and> s_tenantId s = tenantId) \<and>
         set rows \<subseteq> {d \<in> set (deliveries w). d_webhookId d = webhookId} \<and>
         n_total = length (filter (\<lambda>d. d_webhookId d = webhookId) (deliveries w))"
proof -
  from assms obtain s where s: "getWebhook webhookId tenantId w = Inr s"
    by (auto simp: getWebhookDeliveries_def split: sum.splits)
  from assms s have page: "findMany_page ((page - 1) * limit) limit
       (sort_key (\<lambda>d. - int (d_createdAt d)) (filter (\<lambda>d. d_webhookId d = webhookId) (deliveries w)))
       = Inr rows" and n_total: "n_total = length (filter (\<lambda>d. d_webhookId d = webhookId) (deliveries w))"
    by (auto simp: getWebhookDeliveries_def Let_def split: sum.splits)
  from set_findMany_page [OF page] have "set rows \<subseteq> {d \<in> set (deliveries w). d_webhookId d = webhookId}"
    by auto
  then show ?thesis
    using getWebhook_Inr [OF s] n_total by auto
qed

lemma updateWebhook_NotFound:
  assumes "getWebhook webhookId tenantId w = Inl e"
  shows "updateWebhook urlParses now webhookId tenantId input w = (Inl e, w)"
  using assms by (simp add: updateWebhook_def)

lemma deleteWebhook_NotFound:
  assumes "getWebhook webhookId tenantId w = Inl e"
  shows "deleteWebhook webhookId tenantId w = (Inl e, w)"
  using assms by (simp add: deleteWebhook_def)

lemma getWebhookDeliveries_NotFound:
  assumes "getWebhook webhookId tenantId w = Inl e"
  shows "getWebhookDeliveries webhookId tenantId page limit w = Inl e"
  using assms by (simp add: getWebhookDeliveries_def)

lemma updateWebhook_Inr_owned:
  assumes "fst (updateWebhook urlParses now webhookId tenantId input w) = Inr s'"
  shows "\<exists>s \<in> set (subscriptions w). s_id s = webhookId \<and> s_tenantId s = tenantId"
proof (cases "getWebhook webhookId tenantId w")
  case (Inl e)
  with assms show ?thesis by (simp add: updateWebhook_NotFound)
next
  case (Inr s)
  from getWebhook_Inr [OF Inr] show ?thesis by blast
qed

lemma deleteWebhook_Inr_owned:
  assumes "fst (deleteWebhook webhookId tenantId w) = Inr u"
  shows "\<exists>s \<in> set (subscriptions w). s_id s = webhookId \<and> s_tenantId s = tenantId"
proof (cases "getWebhook webhookId tenantId w")
  case (Inl e)
  with assms show ?thesis by (simp add: deleteWebhook_NotFound)
next
  case (Inr s)
  from getWebhook_Inr [OF Inr] show ?thesis by blast
qed

text \<open>
  Claim C6. When no subscription with the given id belongs to the tenant (the id is absent
  or the subscription is another tenant's), \<^verbatim>\<open>getWebhook\<close>, \<^verbatim>\<open>updateWebhook\<close>,
  \<^verbatim>\<open>deleteWebhook\<close> and \<^verbatim>\<open>getWebhookDeliveries\<close> fail with the same NotFound error
  (status 404) and change nothing. Each of them succeeds only for a subscription of the
  tenant, and the delivery rows that the listing returns all carry the requested id; with
  unique ids they are rows of a subscription of the tenant.
\<close>

theorem C6_tenant_scoped_access:
  "((\<not> (\<exists>s \<in> set (subscriptions w). s_id s = webhookId \<and> s_tenantId s = tenantId)) \<longrightarrow>
      getWebhook webhookId tenantId w = Inl (NotFoundError ''Webhook not found'') \<and>
      updateWebhook urlParses now webhookId tenantId input w =
        (Inl (NotFoundError ''Webhook not found''), w) \<and>
      deleteWebhook webhookId tenantId w = (Inl (NotFoundError ''Webhook not found''), w) \<and>
      getWebhookDeliveries webhookId tenantId page limit w =
        Inl (NotFoundError ''Webhook not found'') \<and>
      statusCode_of (NotFoundError ''Webhook not found'') = 404) \<and>
   (getWebhook webhookId tenantId w = Inr s \<longrightarrow>
      s \<in> set (subscriptions w) \<and> s_id s = webhookId \<and> s_tenantId s = tenantId) \<and>
   (fst (updateWebhook urlParses now webhookId tenantId input w) = Inr s' \<longrightarrow>
      (\<exists>s \<in> set (subscriptions w). s_id s = webhookId \<and> s_tenantId s = tenantId)) \<and>
   (fst (deleteWebhook webhookId tenantId w) = Inr u \<longrightarrow>
      (\<exists>s \<in> set (subscriptions w). s_id s = webhookId \<and> s_tenantId s = tenantId)) \<and>
   (getWebhookDeliveries webhookId tenantId page limit w = Inr (rows, n) \<longrightarrow>
      (\<exists>s \<in> set (subscriptions w). s_id s = webhookId \<and> s_tenantId s = tenantId) \<and>
      (\<forall>d \<in> set rows. d \<in> set (deliveries w) \<and> d_webhookId d = webhookId) \<and>
      (distinct (map s_id (subscriptions w)) \<longrightarrow>
         (\<forall>d \<in> set rows. \<forall>s \<in> set (subscriptions w).
            s_id s = d_webhookId d \<longrightarrow> s_tenantId s = tenantId)))"
proof -
  have absent: "getWebhook webhookId tenantId w = Inl (NotFoundError ''Webhook not found'') \<and>
      updateWebhook urlParses now webhookId tenantId input w =
        (Inl (NotFoundError ''Webhook not found''), w) \<and>
      deleteWebhook webhookId tenantId w = (Inl (NotFoundError ''Webhook not found''), w) \<and>
      getWebhookDeliveries webhookId tenantId page limit w =
        Inl (NotFoundError ''Webhook not found'') \<and>
      statusCode_of (NotFoundError ''Webhook not found'') = 404"
    if "\<not> (\<exists>s \<in> set (subscriptions w). s_id s = webhookId \<and> s_tenantId s = tenantId)"
  proof -
    note nf = getWebhook_NotFound [OF that]
    show ?thesis
      by (simp add: nf updateWebhook_NotFound [OF nf] deleteWebhook_NotFound [OF nf]
          getWebhookDeliveries_NotFound [OF nf])
  qed
  have listing: "(\<exists>s \<in> set (subscriptions w). s_id s = webhookId \<and> s_tenantId s = tenantId) \<and>
      (\<forall>d \<in> set rows. d \<in> set (deliveries w) \<and> d_webhookId d = webhookId) \<and>
      (distinct (map s_id (subscriptions w)) \<longrightarrow>
         (\<forall>d \<in> set rows. \<forall>s \<in> set (subscriptions w).
            s_id s = d_webhookId d \<longrightarrow> s_tenantId s = tenantId))"
    if ok: "getWebhookDeliveries webhookId tenantId page limit w = Inr (rows, n)"
  proof -
    from getWebhookDeliveries_rows [OF ok] obtain s0 where
      s0: "s0 \<in> set (subscriptions w)" "s_id s0 = webhookId" "s_tenantId s0 = tenantId" and
      rows: "set rows \<subseteq> {d \<in> set (deliveries w). d_webhookId d = webhookId}"
      by blast
    have "s_tenantId s = tenantId"
      if "distinct (map s_id (subscriptions w))" "d \<in> set rows" "s \<in> set (subscriptions w)"
         "s_id s = d_webhookId d" for d s
    proof -
      from rows that have "s_id s = s_id s0" using s0 by auto
      with distinct_ids_unique [OF that(1) that(3) s0(1)] have "s = s0" by simp
      then show ?thesis using s0 by simp
    qed
    then show ?thesis using s0 rows by blast
  qed
  show ?thesis
    using absent listing getWebhook_Inr updateWebhook_Inr_owned deleteWebhook_Inr_owned
    by blast
qed

theorem C6_tenant_scoped_access_sample:
  "getWebhook ''wh1'' ''t2'' sample_world = Inl (NotFoundError ''Webhook not found'') \<and>
   updateWebhook sample_urlParses 900 ''wh1'' ''t2''
     \<lparr> u_url = None, u_events = None, u_description = None, u_isActive = Some False \<rparr>
     sample_world = (Inl (NotFoundError ''Webhook not found''), sample_world) \<and>
   deleteWebhook ''wh1'' ''t2'' sample_world =
     (Inl (NotFoundError ''Webhook not found''), sample_world) \<and>
   getWebhookDeliveries ''wh1'' ''t2'' 1 50 sample_world =
     Inl (NotFoundError ''Webhook not found'') \<and>
   getWebhookDeliveries ''nope'' ''t1'' 1 50 sample_world =
     Inl (NotFoundError ''Webhook not found'') \<and>
   getWebhook ''wh1'' ''t1'' sample_world = Inr sub_a \<and>
   getWebhookDeliveries ''wh1'' ''t1'' 1 50 sample_world = Inr ([delivery_a], 1) \<and>
   s_tenantId sub_a = ''t1'' \<and> d_webhookId delivery_a = ''wh1''"
proof -
  have foreign: "\<not> (\<exists>s \<in> set (subscriptions sample_world). s_id s = ''wh1'' \<and> s_tenantId s = ''t2'')"
    by (simp add: sample_world_def sub_a_def sub_b_def sub_c_def)
  have absent: "\<not> (\<exists>s \<in> set (subscriptions sample_world). s_id s = ''nope'' \<and> s_tenantId s = ''t1'')"
    by (simp add: sample_world_def sub_a_def sub_b_def sub_c_def)
  have own: "getWebhook ''wh1'' ''t1'' sample_world = Inr sub_a"
    by (simp add: getWebhook_def sample_world_def sub_a_def)
  have rows: "getWebhookDeliveries ''wh1'' ''t1'' 1 50 sample_world = Inr ([delivery_a], 1)"
    by code_simp
  note a = C6_tenant_scoped_access [where w = sample_world and webhookId = "''wh1''"
        and tenantId = "''t2''" and urlParses = sample_urlParses and now = 900
        and input = "\<lparr> u_url = None, u_events = None, u_description = None,
                        u_isActive = Some False \<rparr>" and page = 1 and limit = 50,
        THEN conjunct1, THEN mp, OF foreign]
  note b = C6_tenant_scoped_access [where w = sample_world and webhookId = "''nope''"
        and tenantId = "''t1''" and page = 1 and limit = 50,
        THEN conjunct1, THEN mp, OF absent]
  have c: "s_tenantId sub_a = ''t1'' \<and> d_webhookId delivery_a = ''wh1''"
    by (simp add: sub_a_def delivery_a_def)
  show ?thesis
    using a b c own rows by simp
qed

lemma processor_ignores_subscriptions:
  "webhookProcessor dbRefuses hmacHex stringify fetch timestamp logTime job attemptsMade
     (w\<lparr> subscriptions := rows \<rparr>) =
   (fst (webhookProcessor dbRefuses hmacHex stringify fetch timestamp logTime job attemptsMade w),
    (snd (webhookProcessor dbRefuses hmacHex stringify fetch timestamp logTime job attemptsMade w))
      \<lparr> subscriptions := rows \<rparr>)"
proof (cases "fetch (webhookRequest hmacHex stringify timestamp job)")
  case (Inl err)
  then show ?thesis
    by (simp add: webhookProcessor_outcome split: option.splits)
next
  case (Inr response)
  show ?thesis
  proof (cases "response_ok response")
    case True
    with Inr show ?thesis
      by (simp add: webhookProcessor_outcome split: option.splits)
  next
    case False
    with Inr show ?thesis
      by (simp add: webhookProcessor_outcome split: option.splits)
  qed
qed

lemma deleteWebhook_effect:
  "deleteWebhook webhookId tenantId w =
     (if \<exists>s \<in> set (subscriptions w). s_id s = webhookId \<and> s_tenantId s = tenantId
      then (Inr (), w\<lparr> subscriptions := filter (\<lambda>r. s_id r \<noteq> webhookId) (subscriptions w) \<rparr>)
      else (Inl (NotFoundError ''Webhook not found''), w))"
proof (cases "\<exists>s \<in> set (subscriptions w). s_id s = webhookId \<and> s_tenantId s = tenantId")
  case False
  then show ?thesis
    by (simp add: deleteWebhook_NotFound [OF getWebhook_NotFound [OF False]])
next
  case True
  then obtain s where s: "getWebhook webhookId tenantId w = Inr s"
    using getWebhook_cases [of webhookId tenantId w] getWebhook_NotFound [of w webhookId tenantId]
    by (auto simp: getWebhook_def find_None_iff split: option.splits)
  from getWebhook_Inr [OF s] have mem: "s \<in> set (subscriptions w)" and sid: "s_id s = webhookId"
    by simp_all
  from find_by_id_Some [OF mem] obtain r where
    "find (\<lambda>r. s_id r = webhookId) (subscriptions w) = Some r"
    using sid by auto
  then show ?thesis
    using True s sid by (simp add: deleteWebhook_def subscription_delete_def)
qed

text \<open>
  Claim C8. \<^verbatim>\<open>deleteWebhook\<close> removes the rows with the given id from the subscriptions
  table when the subscription is the tenant's, and changes nothing otherwise; the delivery
  log, the queued jobs and the plans are as before. An attempt of a job run after the
  deletion returns the same result and leaves the same log as it would have without it, and
  its request goes to the url and is signed with the secret of the job's data.
\<close>

theorem C8_delete_leaves_log_and_jobs:
  "deliveries (snd (deleteWebhook webhookId tenantId w)) = deliveries w \<and>
   webhookJobs (snd (deleteWebhook webhookId tenantId w)) = webhookJobs w \<and>
   tenantPlans (snd (deleteWebhook webhookId tenantId w)) = tenantPlans w \<and>
   subscriptions (snd (deleteWebhook webhookId tenantId w)) =
     (if \<exists>s \<in> set (subscriptions w). s_id s = webhookId \<and> s_tenantId s = tenantId
      then filter (\<lambda>r. s_id r \<noteq> webhookId) (subscriptions w)
      else subscriptions w) \<and>
   fst (webhookProcessor dbRefuses hmacHex stringify fetch timestamp logTime job attemptsMade
          (snd (deleteWebhook webhookId tenantId w))) =
     fst (webhookProcessor dbRefuses hmacHex stringify fetch timestamp logTime job attemptsMade w) \<and>
   deliveries (snd (webhookProcessor dbRefuses hmacHex stringify fetch timestamp logTime job attemptsMade
                      (snd (deleteWebhook webhookId tenantId w)))) =
     deliveries (snd (webhookProcessor dbRefuses hmacHex stringify fetch timestamp logTime job
                        attemptsMade w)) \<and>
   r_url (webhookRequest hmacHex stringify timestamp job) = j_url job \<and>
   map_of (r_headers (webhookRequest hmacHex stringify timestamp job)) ''X-Webhook-Signature'' =
     Some (hmacHex (j_secret job) (show_nat timestamp @ ''.'' @ stringify (j_payload job)))"
proof (cases "\<exists>s \<in> set (subscriptions w). s_id s = webhookId \<and> s_tenantId s = tenantId")
  case True
  then have eq: "deleteWebhook webhookId tenantId w =
      (Inr (), w\<lparr> subscriptions := filter (\<lambda>r. s_id r \<noteq> webhookId) (subscriptions w) \<rparr>)"
    by (simp only: deleteWebhook_effect if_True)
  show ?thesis
    unfolding eq if_P [OF True]
    by (simp add: processor_ignores_subscriptions webhookRequest_def signaturePayload_def
        Let_def)
next
  case False
  then have eq: "deleteWebhook webhookId tenantId w =
      (Inl (NotFoundError ''Webhook not found''), w)"
    by (simp only: deleteWebhook_effect if_False)
  show ?thesis
    unfolding eq if_not_P [OF False]
    by (simp add: webhookRequest_def signaturePayload_def Let_def)
qed

theorem C8_delete_sample:
  "fst (deleteWebhook ''wh1'' ''t1'' sample_world) = Inr () \<and>
   subscriptions (snd (deleteWebhook ''wh1'' ''t1'' sample_world)) = [sub_b, sub_c] \<and>
   deliveries (snd (deleteWebhook ''wh1'' ''t1'' sample_world)) = [delivery_a, delivery_b] \<and>
   webhookJobs (snd (deleteWebhook ''wh1'' ''t1'' sample_world)) = [] \<and>
   fst (webhookProcessor store_accepts sample_hmac (\<lambda>p. p) (respond 200) 5 6 sample_job 0
          (snd (deleteWebhook ''wh1'' ''t1'' sample_world))) = Inr 200"
proof -
  have owned: "\<exists>s \<in> set (subscriptions sample_world). s_id s = ''wh1'' \<and> s_tenantId s = ''t1''"
    by (simp add: sample_world_def sub_a_def)
  have rest: "filter (\<lambda>r. s_id r \<noteq> ''wh1'') (subscriptions sample_world) = [sub_b, sub_c]"
    by (simp add: sample_world_def sub_a_def sub_b_def sub_c_def)
  have deleted: "fst (deleteWebhook ''wh1'' ''t1'' sample_world) = Inr ()"
    by (simp add: deleteWebhook_effect owned)
  have sent: "fst (webhookProcessor store_accepts sample_hmac (\<lambda>p. p) (respond 200) 5 6 sample_job 0
                     sample_world) = Inr 200"
    by (simp add: webhookProcessor_def delivery_create_def store_accepts_def respond_def
        response_ok_def Let_def)
  have stores: "deliveries sample_world = [delivery_a, delivery_b]" "webhookJobs sample_world = []"
    by (simp_all add: sample_world_def)
  note a = C8_delete_leaves_log_and_jobs [where webhookId = "''wh1''" and tenantId = "''t1''"
      and w = sample_world and dbRefuses = store_accepts and hmacHex = sample_hmac
      and stringify = "\<lambda>p. p" and fetch = "respond 200" and timestamp = 5 and logTime = 6 and job = sample_job
      and attemptsMade = 0, unfolded if_P [OF owned] rest sent stores]
  show ?thesis
    using a deleted by simp
qed

subsection \<open>Creation\<close>

lemma length_randomBytes: "length (randomBytes entropy n) = n"
  by (simp add: randomBytes_def)

lemma length_toHex: "length (toHex bs) = 2 * length bs"
  by (induction bs) (simp_all add: toHex_def byte_hex_def)

lemma hex_digit_in: "hex_digit d \<in> set ''0123456789abcdef''"
proof -
  have "d mod 16 < length ''0123456789abcdef''" by simp
  then show ?thesis
    unfolding hex_digit_def by (rule nth_mem)
qed

lemma set_toHex: "set (toHex bs) \<subseteq> set ''0123456789abcdef''"
proof (induction bs)
  case Nil
  show ?case by (simp add: toHex_def)
next
  case (Cons b bs)
  have "set (byte_hex b) \<subseteq> set ''0123456789abcdef''"
    using hex_digit_in [of "unat b div 16"] hex_digit_in [of "unat b mod 16"]
    by (simp add: byte_hex_def)
  with Cons show ?case by (simp add: toHex_def)
qed

lemma secret_shape:
  "length (toHex (randomBytes entropy 32)) = 64 \<and>
   set (toHex (randomBytes entropy 32)) \<subseteq> set ''0123456789abcdef''"
  using set_toHex [of "randomBytes entropy 32"]
  by (simp add: length_toHex length_randomBytes)

lemma subscription_create_Inr:
  assumes "fst (subscription_create now tenantId userId input secret w) = Inr sub"
  shows "sub = \<lparr> s_id = genId (idCounter w), s_tenantId = tenantId, s_url = c_url input,
                 s_events = c_events input, s_secret = secret, s_isActive = True,
                 s_description = c_description input, s_createdBy = userId,
                 s_createdAt = now, s_updatedAt = now \<rparr> \<and>
         snd (subscription_create now tenantId userId input secret w) =
           w\<lparr> subscriptions := subscriptions w @ [sub], idCounter := Suc (idCounter w) \<rparr> \<and>
         genId (idCounter w) \<notin> s_id ` set (subscriptions w)"
  using assms by (auto simp: subscription_create_def Let_def split: if_splits)

lemma subscription_create_fresh:
  assumes "genId (idCounter w) \<notin> s_id ` set (subscriptions w)"
  shows "\<exists>sub. subscription_create now tenantId userId input secret w =
           (Inr sub, w\<lparr> subscriptions := subscriptions w @ [sub], idCounter := Suc (idCounter w) \<rparr>)"
  using assms by (simp add: subscription_create_def Let_def)

lemma subscription_create_Inl:
  assumes "fst (subscription_create now tenantId userId input secret w) = Inl e"
  shows "snd (subscription_create now tenantId userId input secret w) = w"
  using assms by (auto simp: subscription_create_def Let_def split: if_splits)

lemma createWebhook_Inl_unchanged:
  assumes "fst (createWebhook urlParses entropy now tenantId userId input w) = Inl e"
  shows "snd (createWebhook urlParses entropy now tenantId userId input w) = w"
  using assms
  by (auto simp: createWebhook_def Let_def subscription_create_Inl split: if_splits option.splits)

lemma createWebhook_Inr:
  assumes "fst (createWebhook urlParses entropy now tenantId userId input w) = Inr sub"
  shows "urlParses (c_url input) \<and> c_events input \<noteq> [] \<and>
         fst (subscription_create now tenantId userId input (toHex (randomBytes entropy 32)) w) = Inr sub \<and>
         createWebhook urlParses entropy now tenantId userId input w =
           subscription_create now tenantId userId input (toHex (randomBytes entropy 32)) w"
  using assms
  by (auto simp: createWebhook_def Let_def split: if_splits option.splits)

text \<open>
  Claim C7. \<^verbatim>\<open>createWebhook\<close> rejects an input whose url the URL constructor does not
  parse, and an input whose events array is empty, with a validation error, and then
  creates nothing. For an input it accepts, the secret of the new subscription is the
  hexadecimal encoding of 32 bytes read from the random generator: 64 characters, each a
  lower-case hexadecimal digit. The new row, secret included, is what the function returns
  and what it appends to the table.
\<close>

theorem C7_create_validation_and_secret:
  "(\<not> urlParses (c_url input) \<longrightarrow>
      createWebhook urlParses entropy now tenantId userId input w =
        (Inl (ValidationError ''Invalid webhook URL''), w)) \<and>
   (c_events input = [] \<longrightarrow>
      (\<exists>msg. fst (createWebhook urlParses entropy now tenantId userId input w) =
               Inl (ValidationError msg)) \<and>
      snd (createWebhook urlParses entropy now tenantId userId input w) = w) \<and>
   (fst (createWebhook urlParses entropy now tenantId userId input w) = Inr sub \<longrightarrow>
      urlParses (c_url input) \<and> c_events input \<noteq> [] \<and>
      s_secret sub = toHex (randomBytes entropy 32) \<and>
      length (s_secret sub) = 64 \<and>
      set (s_secret sub) \<subseteq> set ''0123456789abcdef'' \<and>
      subscriptions (snd (createWebhook urlParses entropy now tenantId userId input w)) =
        subscriptions w @ [sub] \<and>
      s_tenantId sub = tenantId \<and> s_url sub = c_url input \<and> s_events sub = c_events input \<and>
      s_description sub = c_description input \<and> s_createdBy sub = userId \<and> s_isActive sub)"
proof -
  have created: "urlParses (c_url input) \<and> c_events input \<noteq> [] \<and>
      s_secret sub = toHex (randomBytes entropy 32) \<and>
      length (s_secret sub) = 64 \<and>
      set (s_secret sub) \<subseteq> set ''0123456789abcdef'' \<and>
      subscriptions (snd (createWebhook urlParses entropy now tenantId userId input w)) =
        subscriptions w @ [sub] \<and>
      s_tenantId sub = tenantId \<and> s_url sub = c_url input \<and> s_events sub = c_events input \<and>
      s_description sub = c_description input \<and> s_createdBy sub = userId \<and> s_isActive sub"
    if ok: "fst (createWebhook urlParses entropy now tenantId userId input w) = Inr sub"
  proof -
    note c = createWebhook_Inr [OF ok]
    from c have sc: "fst (subscription_create now tenantId userId input
                            (toHex (randomBytes entropy 32)) w) = Inr sub"
      by simp
    note d = subscription_create_Inr [OF sc]
    from d have secret: "s_secret sub = toHex (randomBytes entropy 32)"
      by simp
    show ?thesis
      using c d secret_shape [of entropy] by (simp add: secret)
  qed
  have bad_url: "createWebhook urlParses entropy now tenantId userId input w =
        (Inl (ValidationError ''Invalid webhook URL''), w)" if "\<not> urlParses (c_url input)"
    using that by (simp add: createWebhook_def)
  have no_events: "(\<exists>msg. fst (createWebhook urlParses entropy now tenantId userId input w) =
               Inl (ValidationError msg)) \<and>
      snd (createWebhook urlParses entropy now tenantId userId input w) = w"
    if "c_events input = []"
    using that by (simp add: createWebhook_def)
  show ?thesis
    using created bad_url no_events by blast
qed

text \<open>
  The hexadecimal encoding is injective: a secret determines the bytes it was made from.
\<close>

lemma hex_digit_inject:
  assumes "i < 16" and "j < 16" and "hex_digit i = hex_digit j"
  shows "i = j"
proof -
  have d: "distinct ''0123456789abcdef''" by simp
  have "(''0123456789abcdef'' ! i = ''0123456789abcdef'' ! j) = (i = j)"
    using assms(1,2) by (intro nth_eq_iff_index_eq [OF d]) simp_all
  then show ?thesis
    using assms by (simp add: hex_digit_def)
qed

lemma byte_hex_inject:
  assumes "byte_hex a = byte_hex b"
  shows "a = b"
proof -
  have "unat w < 2 ^ LENGTH(8)" for w :: "8 word"
    by (rule unsigned_less)
  then have la: "unat a < 256" and lb: "unat b < 256"
    by simp_all
  from assms have hi: "hex_digit (unat a div 16) = hex_digit (unat b div 16)"
    and lo: "hex_digit (unat a mod 16) = hex_digit (unat b mod 16)"
    by (simp_all add: byte_hex_def)
  have "unat a div 16 = unat b div 16"
    using la lb by (intro hex_digit_inject [OF _ _ hi]) simp_all
  moreover have "unat a mod 16 = unat b mod 16"
    by (intro hex_digit_inject [OF _ _ lo]) simp_all
  ultimately have "unat a = unat b"
    by (metis div_mult_mod_eq)
  then show ?thesis by (simp add: word_unat_eq_iff)
qed

lemma toHex_inject:
  assumes "toHex xs = toHex ys"
  shows "xs = ys"
  using assms
proof (induction xs arbitrary: ys)
  case Nil
  then show ?case by (cases ys) (simp_all add: toHex_def byte_hex_def)
next
  case (Cons x xs)
  then obtain y ys' where ys: "ys = y # ys'"
    by (cases ys) (simp_all add: toHex_def byte_hex_def)
  from Cons.prems have "byte_hex x @ toHex xs = byte_hex y @ toHex ys'"
    by (simp add: ys toHex_def)
  then have "byte_hex x = byte_hex y" and "toHex xs = toHex ys'"
    by (simp_all add: byte_hex_def)
  then show ?case
    using Cons.IH byte_hex_inject by (simp add: ys)
qed

theorem C7_create_validation_and_secret_sample:
  "createWebhook sample_urlParses sample_entropy 1000 ''t2'' ''u2''
     \<lparr> c_url = ''not a url'', c_events = [''post.created''], c_description = None \<rparr>
     sample_world = (Inl (ValidationError ''Invalid webhook URL''), sample_world) \<and>
   (\<exists>msg. fst (createWebhook sample_urlParses sample_entropy 1000 ''t2'' ''u2''
                  \<lparr> c_url = ''https://d.example/in'', c_events = [], c_description = None \<rparr>
                  sample_world) = Inl (ValidationError msg)) \<and>
   snd (createWebhook sample_urlParses sample_entropy 1000 ''t2'' ''u2''
          \<lparr> c_url = ''https://d.example/in'', c_events = [], c_description = None \<rparr>
          sample_world) = sample_world \<and>
   s_secret (projr (fst (createWebhook sample_urlParses sample_entropy 1000 ''t2'' ''u2''
          \<lparr> c_url = ''https://d.example/in'', c_events = [''post.created''],
            c_description = None \<rparr> sample_world))) =
     ''030a11181f262d343b424950575e656c737a81888f969da4abb2b9c0c7ced5dc'' \<and>
   length ''030a11181f262d343b424950575e656c737a81888f969da4abb2b9c0c7ced5dc'' = 64 \<and>
   map s_id (subscriptions (snd (createWebhook sample_urlParses sample_entropy 1000 ''t2'' ''u2''
          \<lparr> c_url = ''https://d.example/in'', c_events = [''post.created''],
            c_description = None \<rparr> sample_world))) = [''wh1'', ''wh2'', ''wh3'', ''c7'']"
proof -
  define created where
    "created = \<lparr> s_id = ''c7'', s_tenantId = ''t2'', s_url = ''https://d.example/in'',
           s_events = [''post.created''],
           s_secret = ''030a11181f262d343b424950575e656c737a81888f969da4abb2b9c0c7ced5dc'',
           s_isActive = True, s_description = None, s_createdBy = ''u2'',
           s_createdAt = 1000, s_updatedAt = 1000 \<rparr>"
  have bad: "\<not> sample_urlParses (c_url \<lparr> c_url = ''not a url'', c_events = [''post.created''],
                                            c_description = None \<rparr>)"
    by (simp add: sample_urlParses_def)
  have empty: "c_events \<lparr> c_url = ''https://d.example/in'', c_events = [], c_description = None \<rparr> = []"
    by simp
  have ok: "fst (createWebhook sample_urlParses sample_entropy 1000 ''t2'' ''u2''
          \<lparr> c_url = ''https://d.example/in'', c_events = [''post.created''],
            c_description = None \<rparr> sample_world) = Inr created"
    unfolding created_def by code_simp
  have ids: "map s_id (subscriptions sample_world) = [''wh1'', ''wh2'', ''wh3'']"
    by (simp add: sample_world_def sub_a_def sub_b_def sub_c_def)
  note a = C7_create_validation_and_secret [where urlParses = sample_urlParses
      and entropy = sample_entropy and now = 1000 and tenantId = "''t2''" and userId = "''u2''"
      and w = sample_world
      and input = "\<lparr> c_url = ''not a url'', c_events = [''post.created''], c_description = None \<rparr>",
      THEN conjunct1, THEN mp, OF bad]
  note b = C7_create_validation_and_secret [where urlParses = sample_urlParses
      and entropy = sample_entropy and now = 1000 and tenantId = "''t2''" and userId = "''u2''"
      and w = sample_world
      and input = "\<lparr> c_url = ''https://d.example/in'', c_events = [], c_description = None \<rparr>",
      THEN conjunct2, THEN conjunct1, THEN mp, OF empty]
  note c = C7_create_validation_and_secret [where urlParses = sample_urlParses
      and entropy = sample_entropy and now = 1000 and tenantId = "''t2''" and userId = "''u2''"
      and w = sample_world and sub = created
      and input = "\<lparr> c_url = ''https://d.example/in'', c_events = [''post.created''],
                      c_description = None \<rparr>",
      THEN conjunct2, THEN conjunct2, THEN mp, OF ok]
  have sec: "s_secret created = ''030a11181f262d343b424950575e656c737a81888f969da4abb2b9c0c7ced5dc''"
    and cid: "s_id created = ''c7''"
    by (simp_all add: created_def)
  note len = c [THEN conjunct2, THEN conjunct2, THEN conjunct2, THEN conjunct1]
  note subs = c [THEN conjunct2, THEN conjunct2, THEN conjunct2, THEN conjunct2,
      THEN conjunct2, THEN conjunct1]
  show ?thesis
    using a b len by (simp add: ok subs ids sec cid)
qed

text \<open>
  Claim C10. For a valid input, when the tenant has a plan row and the number of the
  tenant's active subscriptions is at least the plan's \<^verbatim>\<open>maxWebhooks\<close>, \<^verbatim>\<open>createWebhook\<close>
  throws a ConflictError (status 409, not a validation error) and creates nothing. When the
  tenant has no plan row, the input is created however many subscriptions the tenant has
  (the generated key being new).
\<close>

theorem C10_plan_limit:
  "(urlParses (c_url input) \<and> c_events input \<noteq> [] \<and>
    find (\<lambda>p. p_tenantId p = tenantId) (tenantPlans w) = Some plan \<and>
    p_maxWebhooks plan \<le>
      int (length (filter (\<lambda>s. s_tenantId s = tenantId \<and> s_isActive s) (subscriptions w))) \<longrightarrow>
      createWebhook urlParses entropy now tenantId userId input w =
        (Inl (ConflictError (''Webhook limit reached. Your plan allows '' @
                             show_int (p_maxWebhooks plan) @ '' webhooks.'')), w) \<and>
      statusCode_of (ConflictError (''Webhook limit reached. Your plan allows '' @
                             show_int (p_maxWebhooks plan) @ '' webhooks.'')) = 409) \<and>
   (urlParses (c_url input) \<and> c_events input \<noteq> [] \<and>
    find (\<lambda>p. p_tenantId p = tenantId) (tenantPlans w) = None \<and>
    genId (idCounter w) \<notin> s_id ` set (subscriptions w) \<longrightarrow>
      (\<exists>sub. createWebhook urlParses entropy now tenantId userId input w =
         (Inr sub, w\<lparr> subscriptions := subscriptions w @ [sub],
                       idCounter := Suc (idCounter w) \<rparr>)))"
proof -
  have limit: "createWebhook urlParses entropy now tenantId userId input w =
        (Inl (ConflictError (''Webhook limit reached. Your plan allows '' @
                             show_int (p_maxWebhooks plan) @ '' webhooks.'')), w)"
    if "urlParses (c_url input)" "c_events input \<noteq> []"
       "find (\<lambda>p. p_tenantId p = tenantId) (tenantPlans w) = Some plan"
       "p_maxWebhooks plan \<le>
          int (length (filter (\<lambda>s. s_tenantId s = tenantId \<and> s_isActive s) (subscriptions w)))"
    using that by (simp add: createWebhook_def Let_def)
  have free: "\<exists>sub. createWebhook urlParses entropy now tenantId userId input w =
         (Inr sub, w\<lparr> subscriptions := subscriptions w @ [sub],
                       idCounter := Suc (idCounter w) \<rparr>)"
    if "urlParses (c_url input)" "c_events input \<noteq> []"
       "find (\<lambda>p. p_tenantId p = tenantId) (tenantPlans w) = None"
       "genId (idCounter w) \<notin> s_id ` set (subscriptions w)"
    using that subscription_create_fresh [OF that(4)]
    by (simp add: createWebhook_def Let_def)
  show ?thesis
    using limit free by simp
qed

theorem C10_plan_limit_sample:
  "createWebhook sample_urlParses sample_entropy 1000 ''t1'' ''u1''
     \<lparr> c_url = ''https://d.example/in'', c_events = [''post.created''], c_description = None \<rparr>
     sample_world =
     (Inl (ConflictError ''Webhook limit reached. Your plan allows 1 webhooks.''), sample_world) \<and>
   (\<exists>sub. createWebhook sample_urlParses sample_entropy 1000 ''t2'' ''u2''
      \<lparr> c_url = ''https://d.example/in'', c_events = [''post.created''], c_description = None \<rparr>
      sample_world =
      (Inr sub, sample_world\<lparr> subscriptions := subscriptions sample_world @ [sub],
                              idCounter := Suc (idCounter sample_world) \<rparr>))"
proof -
  let ?input = "\<lparr> c_url = ''https://d.example/in'', c_events = [''post.created''],
                  c_description = None \<rparr>"
  have limited: "sample_urlParses (c_url ?input) \<and> c_events ?input \<noteq> [] \<and>
      find (\<lambda>p. p_tenantId p = ''t1'') (tenantPlans sample_world) =
        Some \<lparr> p_tenantId = ''t1'', p_maxWebhooks = 1 \<rparr> \<and>
      p_maxWebhooks \<lparr> p_tenantId = ''t1'', p_maxWebhooks = 1 \<rparr> \<le>
        int (length (filter (\<lambda>s. s_tenantId s = ''t1'' \<and> s_isActive s)
                       (subscriptions sample_world)))"
    by (simp add: sample_urlParses_def sample_world_def sub_a_def sub_b_def sub_c_def)
  have unlimited: "sample_urlParses (c_url ?input) \<and> c_events ?input \<noteq> [] \<and>
      find (\<lambda>p. p_tenantId p = ''t2'') (tenantPlans sample_world) = None \<and>
      genId (idCounter sample_world) \<notin> s_id ` set (subscriptions sample_world)"
    by (simp add: sample_urlParses_def sample_world_def sub_a_def sub_b_def sub_c_def genId_def)
  have msg: "''Webhook limit reached. Your plan allows '' @
             show_int (p_maxWebhooks \<lparr> p_tenantId = ''t1'', p_maxWebhooks = 1 \<rparr>) @
             '' webhooks.'' = ''Webhook limit reached. Your plan allows 1 webhooks.''"
    by (simp add: show_int_def show_nat.simps digit_char_def)
  note a = C10_plan_limit [where urlParses = sample_urlParses and entropy = sample_entropy
      and now = 1000 and tenantId = "''t1''" and userId = "''u1''" and w = sample_world
      and input = ?input, THEN conjunct1, THEN mp, OF limited, THEN conjunct1, unfolded msg]
  note b = C10_plan_limit [where urlParses = sample_urlParses and entropy = sample_entropy
      and now = 1000 and tenantId = "''t2''" and userId = "''u2''" and w = sample_world
      and input = ?input, THEN conjunct2, THEN mp, OF unlimited]
  show ?thesis
    using a b by simp
qed

lemma find_id_distinct:
  assumes "distinct (map s_id rows)" and "s \<in> set rows"
  shows "find (\<lambda>r. s_id r = s_id s) rows = Some s"
proof -
  from find_by_id_Some [OF assms(2)] obtain r where
    r: "find (\<lambda>r. s_id r = s_id s) rows = Some r" "s_id r = s_id s" "r \<in> set rows"
    by blast
  from distinct_ids_unique [OF assms(1) r(3) assms(2) r(2)] r(1) show ?thesis by simp
qed

lemma map_update_distinct:
  assumes "distinct (map s_id rows)" and "s \<in> set rows"
  shows "map (\<lambda>r. if s_id r = s_id s then f r else r) rows =
         map (\<lambda>r. if s_id r = s_id s then f s else r) rows"
proof (rule map_cong [OF refl])
  fix r assume "r \<in> set rows"
  then show "(if s_id r = s_id s then f r else r) = (if s_id r = s_id s then f s else r)"
    using distinct_ids_unique [OF assms(1) _ assms(2)] by auto
qed

lemma updateWebhook_owned:
  assumes own: "getWebhook webhookId tenantId w = Inr s"
    and ids: "distinct (map s_id (subscriptions w))"
  shows "updateWebhook urlParses now webhookId tenantId input w =
     (if (case u_url input of None \<Rightarrow> False | Some u \<Rightarrow> u \<noteq> [] \<and> \<not> urlParses u)
      then (Inl (ValidationError ''Invalid webhook URL''), w)
      else if u_events input = Some []
      then (Inl (ValidationError ''At least one event must be specified''), w)
      else (Inr (apply_update input now s),
            w\<lparr> subscriptions :=
                 map (\<lambda>r. if s_id r = webhookId then apply_update input now s else r)
                   (subscriptions w) \<rparr>))"
proof -
  from getWebhook_Inr [OF own] have mem: "s \<in> set (subscriptions w)" and sid: "s_id s = webhookId"
    by simp_all
  have found: "find (\<lambda>r. s_id r = webhookId) (subscriptions w) = Some s"
    using find_id_distinct [OF ids mem] by (simp add: sid)
  have upd: "map (\<lambda>r. if s_id r = webhookId then apply_update input now r else r) (subscriptions w) =
             map (\<lambda>r. if s_id r = webhookId then apply_update input now s else r) (subscriptions w)"
    using map_update_distinct [OF ids mem, of "apply_update input now"] by (simp add: sid)
  have ev: "(case u_events input of None \<Rightarrow> False | Some es \<Rightarrow> length es = 0) =
            (u_events input = Some [])"
    by (simp split: option.splits)
  show ?thesis
    by (simp add: updateWebhook_def own sid subscription_update_def found upd ev)
qed

subsection \<open>Update\<close>

text \<open>
  Called on its own, \<^verbatim>\<open>updateWebhook\<close> does not check an empty url string, which is
  falsy in \<^verbatim>\<open>if (input.url)\<close>. Its one caller, the PATCH handler, parses the body with
  \<^verbatim>\<open>updateWebhookSchema\<close> first, and the schema's url check refuses the empty string.
\<close>

lemma updateWebhook_empty_url_passes:
  assumes own: "getWebhook webhookId tenantId w = Inr s"
    and ids: "distinct (map s_id (subscriptions w))"
    and url: "u_url input = Some []" and ev: "u_events input \<noteq> Some []"
  shows "fst (updateWebhook urlParses now webhookId tenantId input w) =
           Inr (apply_update input now s) \<and>
         s_url (apply_update input now s) = []"
  using url ev by (simp add: updateWebhook_owned [OF own ids] apply_update_def)

text \<open>
  Claim C9. An update of a tenant's own subscription through the PATCH handler, where ids
  are unique and the schema's url check refuses the empty string. A body whose url does not
  parse, or whose events array is empty, is rejected with a validation error and the stores
  stay as they are. An accepted body changes exactly the supplied fields of that
  subscription: a field left out keeps its value, as do the id, the tenant, the secret, the
  creator and the creation time; a supplied url parses and a supplied events array is not
  empty. Other subscriptions, the delivery log, the plans and the queue are unchanged.
\<close>

theorem C9_partial_update:
  assumes own: "getWebhook webhookId tenantId w = Inr s"
    and ids: "distinct (map s_id (subscriptions w))"
    and zod: "\<not> zodUrl []"
  shows
    "((\<exists>u. u_url body = Some u \<and> \<not> urlParses u) \<or> u_events body = Some [] \<longrightarrow>
        (\<exists>msg. fst (patchWebhookHandler zodUrl urlParses now webhookId tenantId body w) =
                 Inl (ValidationError msg)) \<and>
        snd (patchWebhookHandler zodUrl urlParses now webhookId tenantId body w) = w) \<and>
     (fst (patchWebhookHandler zodUrl urlParses now webhookId tenantId body w) = Inr s' \<longrightarrow>
        (case u_url body of None \<Rightarrow> s_url s' = s_url s
                          | Some u \<Rightarrow> s_url s' = u \<and> urlParses u) \<and>
        (case u_events body of None \<Rightarrow> s_events s' = s_events s
                             | Some es \<Rightarrow> s_events s' = es \<and> es \<noteq> []) \<and>
        (case u_description body of None \<Rightarrow> s_description s' = s_description s
                                  | Some d \<Rightarrow> s_description s' = Some d) \<and>
        (case u_isActive body of None \<Rightarrow> s_isActive s' = s_isActive s
                               | Some a \<Rightarrow> s_isActive s' = a) \<and>
        s_id s' = s_id s \<and> s_tenantId s' = s_tenantId s \<and> s_secret s' = s_secret s \<and>
        s_createdBy s' = s_createdBy s \<and> s_createdAt s' = s_createdAt s \<and>
        subscriptions (snd (patchWebhookHandler zodUrl urlParses now webhookId tenantId body w)) =
          map (\<lambda>r. if s_id r = webhookId then s' else r) (subscriptions w) \<and>
        deliveries (snd (patchWebhookHandler zodUrl urlParses now webhookId tenantId body w)) =
          deliveries w \<and>
        tenantPlans (snd (patchWebhookHandler zodUrl urlParses now webhookId tenantId body w)) =
          tenantPlans w \<and>
        webhookJobs (snd (patchWebhookHandler zodUrl urlParses now webhookId tenantId body w)) =
          webhookJobs w)"
proof -
  note upd = updateWebhook_owned [OF own ids, of urlParses now body]
  have rejected: "(\<exists>msg. fst (patchWebhookHandler zodUrl urlParses now webhookId tenantId body w) =
                 Inl (ValidationError msg)) \<and>
        snd (patchWebhookHandler zodUrl urlParses now webhookId tenantId body w) = w"
    if bad: "(\<exists>u. u_url body = Some u \<and> \<not> urlParses u) \<or> u_events body = Some []"
  proof (cases "updateWebhookSchema_safeParse zodUrl body")
    case False
    then show ?thesis by (simp add: patchWebhookHandler_def)
  next
    case True
    then have ev: "u_events body \<noteq> Some []"
      by (auto simp: updateWebhookSchema_safeParse_def)
    with bad obtain u where u: "u_url body = Some u" "\<not> urlParses u" by blast
    with True have "zodUrl u" by (simp add: updateWebhookSchema_safeParse_def)
    with zod have "u \<noteq> []" by auto
    then show ?thesis
      using True u by (simp add: patchWebhookHandler_def upd)
  qed
  have accepted: "(case u_url body of None \<Rightarrow> s_url s' = s_url s
                          | Some u \<Rightarrow> s_url s' = u \<and> urlParses u) \<and>
        (case u_events body of None \<Rightarrow> s_events s' = s_events s
                             | Some es \<Rightarrow> s_events s' = es \<and> es \<noteq> []) \<and>
        (case u_description body of None \<Rightarrow> s_description s' = s_description s
                                  | Some d \<Rightarrow> s_description s' = Some d) \<and>
        (case u_isActive body of None \<Rightarrow> s_isActive s' = s_isActive s
                               | Some a \<Rightarrow> s_isActive s' = a) \<and>
        s_id s' = s_id s \<and> s_tenantId s' = s_tenantId s \<and> s_secret s' = s_secret s \<and>
        s_createdBy s' = s_createdBy s \<and> s_createdAt s' = s_createdAt s \<and>
        subscriptions (snd (patchWebhookHandler zodUrl urlParses now webhookId tenantId body w)) =
          map (\<lambda>r. if s_id r = webhookId then s' else r) (subscriptions w) \<and>
        deliveries (snd (patchWebhookHandler zodUrl urlParses now webhookId tenantId body w)) =
          deliveries w \<and>
        tenantPlans (snd (patchWebhookHandler zodUrl urlParses now webhookId tenantId body w)) =
          tenantPlans w \<and>
        webhookJobs (snd (patchWebhookHandler zodUrl urlParses now webhookId tenantId body w)) =
          webhookJobs w"
    if ok: "fst (patchWebhookHandler zodUrl urlParses now webhookId tenantId body w) = Inr s'"
  proof -
    from ok have parsed: "updateWebhookSchema_safeParse zodUrl body"
      by (auto simp: patchWebhookHandler_def split: if_splits)
    then have eq: "patchWebhookHandler zodUrl urlParses now webhookId tenantId body w =
        updateWebhook urlParses now webhookId tenantId body w"
      by (simp add: patchWebhookHandler_def)
    from ok have c1: "\<not> (case u_url body of None \<Rightarrow> False | Some u \<Rightarrow> u \<noteq> [] \<and> \<not> urlParses u)"
      and c2: "u_events body \<noteq> Some []"
      unfolding eq upd by (auto split: if_splits)
    from ok c1 c2 have s': "s' = apply_update body now s"
      unfolding eq upd by (simp split: if_splits)
    have res: "patchWebhookHandler zodUrl urlParses now webhookId tenantId body w =
        (Inr s', w\<lparr> subscriptions :=
                 map (\<lambda>r. if s_id r = webhookId then s' else r) (subscriptions w) \<rparr>)"
      using c1 c2 unfolding eq upd s' by simp
    have url: "case u_url body of None \<Rightarrow> s_url s' = s_url s
                          | Some u \<Rightarrow> s_url s' = u \<and> urlParses u"
    proof (cases "u_url body")
      case None
      then show ?thesis by (simp add: s' apply_update_def)
    next
      case (Some u)
      with parsed have "zodUrl u" by (simp add: updateWebhookSchema_safeParse_def)
      with zod have "u \<noteq> []" by auto
      with c1 Some show ?thesis by (simp add: s' apply_update_def)
    qed
    have events: "case u_events body of None \<Rightarrow> s_events s' = s_events s
                             | Some es \<Rightarrow> s_events s' = es \<and> es \<noteq> []"
      using c2 by (cases "u_events body") (simp_all add: s' apply_update_def)
    have others: "(case u_description body of None \<Rightarrow> s_description s' = s_description s
                                  | Some d \<Rightarrow> s_description s' = Some d) \<and>
        (case u_isActive body of None \<Rightarrow> s_isActive s' = s_isActive s
                               | Some a \<Rightarrow> s_isActive s' = a) \<and>
        s_id s' = s_id s \<and> s_tenantId s' = s_tenantId s \<and> s_secret s' = s_secret s \<and>
        s_createdBy s' = s_createdBy s \<and> s_createdAt s' = s_createdAt s"
      by (simp add: s' apply_update_def split: option.splits)
    show ?thesis
      using url events others by (simp add: res)
  qed
  show ?thesis
    using rejected accepted by blast
qed

theorem C9_partial_update_sample:
  "getWebhook ''wh1'' ''t1'' sample_world = Inr sub_a \<and>
   distinct (map s_id (subscriptions sample_world)) \<and> \<not> sample_zodUrl [] \<and>
   (\<exists>msg. fst (patchWebhookHandler sample_zodUrl sample_urlParses 900 ''wh1'' ''t1''
                  \<lparr> u_url = Some ''nonsense'', u_events = None, u_description = None,
                    u_isActive = None \<rparr> sample_world) = Inl (ValidationError msg)) \<and>
   snd (patchWebhookHandler sample_zodUrl sample_urlParses 900 ''wh1'' ''t1''
          \<lparr> u_url = Some ''nonsense'', u_events = None, u_description = None,
            u_isActive = None \<rparr> sample_world) = sample_world \<and>
   (\<exists>msg. fst (patchWebhookHandler sample_zodUrl sample_urlParses 900 ''wh1'' ''t1''
                  \<lparr> u_url = None, u_events = Some [], u_description = None,
                    u_isActive = None \<rparr> sample_world) = Inl (ValidationError msg)) \<and>
   fst (patchWebhookHandler sample_zodUrl sample_urlParses 900 ''wh1'' ''t1''
          \<lparr> u_url = None, u_events = None, u_description = Some ''paused'',
            u_isActive = Some False \<rparr> sample_world) =
     Inr (sub_a\<lparr> s_isActive := False, s_description := Some ''paused'', s_updatedAt := 900 \<rparr>) \<and>
   map s_secret (subscriptions (snd (patchWebhookHandler sample_zodUrl sample_urlParses 900
          ''wh1'' ''t1''
          \<lparr> u_url = None, u_events = None, u_description = Some ''paused'',
            u_isActive = Some False \<rparr> sample_world))) =
     [''topsecret'', ''othersecret'', ''thirdsecret'']"
proof -
  have own: "getWebhook ''wh1'' ''t1'' sample_world = Inr sub_a"
    by (simp add: getWebhook_def sample_world_def sub_a_def)
  have ids: "distinct (map s_id (subscriptions sample_world))"
    by (simp add: sample_world_def sub_a_def sub_b_def sub_c_def)
  have zod: "\<not> sample_zodUrl []"
    by (simp add: sample_zodUrl_def sample_urlParses_def)
  have bad_url: "(\<exists>u. u_url \<lparr> u_url = Some ''nonsense'', u_events = None, u_description = None,
                            u_isActive = None \<rparr> = Some u \<and> \<not> sample_urlParses u) \<or>
      u_events \<lparr> u_url = Some ''nonsense'', u_events = None, u_description = None,
                 u_isActive = None \<rparr> = Some []"
    by (simp add: sample_urlParses_def)
  have no_events: "(\<exists>u. u_url \<lparr> u_url = None, u_events = Some [], u_description = None,
                            u_isActive = None \<rparr> = Some u \<and> \<not> sample_urlParses u) \<or>
      u_events \<lparr> u_url = None, u_events = Some [], u_description = None,
                 u_isActive = None \<rparr> = Some []"
    by simp
  have ok: "fst (patchWebhookHandler sample_zodUrl sample_urlParses 900 ''wh1'' ''t1''
          \<lparr> u_url = None, u_events = None, u_description = Some ''paused'',
            u_isActive = Some False \<rparr> sample_world) =
     Inr (sub_a\<lparr> s_isActive := False, s_description := Some ''paused'', s_updatedAt := 900 \<rparr>)"
    by code_simp
  note a = C9_partial_update [where zodUrl = sample_zodUrl and urlParses = sample_urlParses and now = 900
      and body = "\<lparr> u_url = Some ''nonsense'', u_events = None, u_description = None,
                     u_isActive = None \<rparr>", OF own ids zod, THEN conjunct1, THEN mp,
      OF bad_url]
  note b = C9_partial_update [where zodUrl = sample_zodUrl and urlParses = sample_urlParses and now = 900
      and body = "\<lparr> u_url = None, u_events = Some [], u_description = None,
                     u_isActive = None \<rparr>", OF own ids zod, THEN conjunct1, THEN mp,
      OF no_events, THEN conjunct1]
  note c = C9_partial_update [where zodUrl = sample_zodUrl and urlParses = sample_urlParses and now = 900
      and body = "\<lparr> u_url = None, u_events = None, u_description = Some ''paused'',
                     u_isActive = Some False \<rparr>", OF own ids zod, THEN conjunct2, THEN mp,
      OF ok]
  from c have subs: "subscriptions (snd (patchWebhookHandler sample_zodUrl sample_urlParses 900
          ''wh1'' ''t1''
          \<lparr> u_url = None, u_events = None, u_description = Some ''paused'',
            u_isActive = Some False \<rparr> sample_world)) =
      map (\<lambda>r. if s_id r = ''wh1''
                then sub_a\<lparr> s_isActive := False, s_description := Some ''paused'',
                            s_updatedAt := 900 \<rparr> else r) (subscriptions sample_world)"
    by blast
  have secrets: "map s_secret (map (\<lambda>r. if s_id r = ''wh1''
                then sub_a\<lparr> s_isActive := False, s_description := Some ''paused'',
                            s_updatedAt := 900 \<rparr> else r) (subscriptions sample_world)) =
      [''topsecret'', ''othersecret'', ''thirdsecret'']"
    by (simp add: sample_world_def sub_a_def sub_b_def sub_c_def)
  have kept: "map s_secret (subscriptions (snd (patchWebhookHandler sample_zodUrl
          sample_urlParses 900 ''wh1'' ''t1''
          \<lparr> u_url = None, u_events = None, u_description = Some ''paused'',
            u_isActive = Some False \<rparr> sample_world))) =
      [''topsecret'', ''othersecret'', ''thirdsecret'']"
    unfolding subs by (rule secrets)
  show ?thesis
    using own ids zod a b ok kept by simp
qed

end
